theory Spec2Isabelle
  imports Main "HOL-Library.Word"
begin

unbundle bit_operations_syntax

section \<open>Client protocol: the version string of the initial handshake\<close>

text \<open>
  \<^verbatim>\<open>get_version_string\<close> of the MariaDB client protocol. A server object carries its
  numeric version (\<^verbatim>\<open>version().total\<close>, an unsigned 64-bit number) and its version string;
  the service carries the configured version string and the list of reachable servers.
  The constant \<^verbatim>\<open>DEFAULT_VERSION_STRING\<close> is declared outside the files at hand and is a
  parameter of the model.
\<close>

record server_info =
  version_total :: nat
  server_version_string :: string

record service_info =
  config_version_string :: string
  reachable_servers :: "server_info list"

definition UINT64_MAX :: nat where
  "UINT64_MAX = 2 ^ 64 - 1"

text \<open>The body of the \<^verbatim>\<open>for\<close> loop over the reachable servers: the state is the pair
  of \<^verbatim>\<open>rval\<close> and \<^verbatim>\<open>smallest_found\<close>.\<close>

fun smallest_version :: "server_info list \<Rightarrow> string \<times> nat \<Rightarrow> string \<times> nat" where
  "smallest_version [] acc = acc"
| "smallest_version (srv # rest) (rval, smallest_found) =
     (if version_total srv > 0 \<and> version_total srv < smallest_found
      then smallest_version rest (server_version_string srv, version_total srv)
      else smallest_version rest (rval, smallest_found))"

text \<open>The version string chosen before the compatibility prefix is considered: the
  configured one when it is not empty, else the one of the reachable server with the
  smallest positive version, else the default.\<close>

definition advertised_version :: "string \<Rightarrow> service_info \<Rightarrow> string" where
  "advertised_version default_version_string service =
     (if config_version_string service \<noteq> []
      then config_version_string service
      else fst (smallest_version (reachable_servers service) (default_version_string, UINT64_MAX)))"

text \<open>\<^verbatim>\<open>rval[0]\<close> of an empty \<^verbatim>\<open>std::string\<close> is the terminating NUL character, which
  differs from \<^verbatim>\<open>'5'\<close>.\<close>

definition first_char :: "string \<Rightarrow> char" where
  "first_char s = (case s of [] \<Rightarrow> CHR 0x00 | c # _ \<Rightarrow> c)"

definition get_version_string :: "string \<Rightarrow> service_info \<Rightarrow> string" where
  "get_version_string default_version_string service =
     (let rval = advertised_version default_version_string service
      in if first_char rval \<noteq> CHR ''5'' then ''5.5.5-'' @ rval else rval)"

section \<open>Service: refreshing the user cache\<close>

text \<open>
  \<^verbatim>\<open>Service::refresh_users\<close> and \<^verbatim>\<open>service_refresh_users\<close>. The user cache that the
  authenticators read is a value of type \<open>'c\<close>; a listener is modelled by its
  \<^verbatim>\<open>load_users\<close> operation, which rebuilds the cache and reports how that went. Times
  are \<^verbatim>\<open>time_t\<close> values.
\<close>

datatype loadusers_result =
  MXS_AUTH_LOADUSERS_OK | MXS_AUTH_LOADUSERS_ERROR | MXS_AUTH_LOADUSERS_FATAL

record rate_limit =
  rl_last :: int
  rl_warned :: bool

record 'c service_users =
  capabilities_async :: bool
  rate_limits :: "nat \<Rightarrow> rate_limit"
  listeners :: "('c \<Rightarrow> loadusers_result \<times> 'c) list"
  user_cache :: 'c

record refresh_clock =
  current_worker_id :: nat
  now :: int
  maxscale_started :: int
  users_refresh_time :: int

text \<open>The loop over the listeners of the service: \<^verbatim>\<open>ret\<close> becomes false when a
  listener reports an error or a fatal error, and the loop goes on with the next one.\<close>

fun load_listeners :: "('c \<Rightarrow> loadusers_result \<times> 'c) list \<Rightarrow> bool \<Rightarrow> 'c \<Rightarrow> bool \<times> 'c" where
  "load_listeners [] ret cache = (ret, cache)"
| "load_listeners (load_users # rest) ret cache =
     (case load_users cache of
        (MXS_AUTH_LOADUSERS_FATAL, cache') \<Rightarrow> load_listeners rest False cache'
      | (MXS_AUTH_LOADUSERS_ERROR, cache') \<Rightarrow> load_listeners rest False cache'
      | (MXS_AUTH_LOADUSERS_OK, cache') \<Rightarrow> load_listeners rest ret cache')"

definition refresh_users :: "refresh_clock \<Rightarrow> 'c service_users \<Rightarrow> bool \<times> 'c service_users" where
  "refresh_users clk svc =
     (let self = (if \<not> capabilities_async svc then 0 else current_worker_id clk);
          limit = rate_limits svc self
      in if now clk > maxscale_started clk + users_refresh_time clk
            \<and> now clk < rl_last limit + users_refresh_time clk
         then (True, if \<not> rl_warned limit
                     then svc\<lparr>rate_limits := (rate_limits svc)(self := limit\<lparr>rl_warned := True\<rparr>)\<rparr>
                     else svc)
         else (let svc1 = svc\<lparr>rate_limits :=
                               (rate_limits svc)(self := \<lparr>rl_last = now clk, rl_warned = False\<rparr>)\<rparr>;
                   (ret, cache') = load_listeners (listeners svc1) True (user_cache svc1)
               in (ret, svc1\<lparr>user_cache := cache'\<rparr>)))"

definition service_refresh_users :: "refresh_clock \<Rightarrow> 'c service_users \<Rightarrow> int \<times> 'c service_users" where
  "service_refresh_users clk svc =
     (case refresh_users clk svc of (ok, svc') \<Rightarrow> (if ok then 0 else 1, svc'))"

section \<open>MariaDB authenticator: validating the client\<close>

text \<open>
  \<^verbatim>\<open>MariaDBAuthenticatorSession::authenticate\<close>. The authentication status codes are
  the ones of the authenticator interface. \<^verbatim>\<open>validate_mysql_user\<close> is only declared in
  the files at hand; it is a parameter that maps the user cache, the client's session
  data and the scramble to a status code. Every call of \<^verbatim>\<open>validate_mysql_user\<close> and
  \<^verbatim>\<open>service_refresh_users\<close> is recorded, with its arguments, in \<open>auth_calls\<close>.
\<close>

definition MXS_AUTH_SUCCEEDED :: int where "MXS_AUTH_SUCCEEDED = 0"
definition MXS_AUTH_FAILED :: int where "MXS_AUTH_FAILED = 1"
definition MXS_AUTH_FAILED_DB :: int where "MXS_AUTH_FAILED_DB = 2"
definition MXS_AUTH_INCOMPLETE :: int where "MXS_AUTH_INCOMPLETE = 4"
definition MXS_AUTH_SSL_COMPLETE :: int where "MXS_AUTH_SSL_COMPLETE = 6"
definition MXS_AUTH_FAILED_WRONG_PASSWORD :: int where "MXS_AUTH_FAILED_WRONG_PASSWORD = 9"

record mysql_session =
  ses_user :: string
  ses_db :: string
  correct_authenticator :: bool
  auth_switch_sent :: bool
  auth_token :: "8 word list option"

datatype auth_call =
  Call_validate_mysql_user mysql_session "8 word list"
| Call_service_refresh_users

record 'c auth_world =
  aw_service :: "'c service_users"
  aw_client_data :: mysql_session
  aw_dcb_user :: "string option"
  auth_calls :: "auth_call list"

record 'c auth_env =
  validate_mysql_user :: "'c \<Rightarrow> mysql_session \<Rightarrow> 8 word list \<Rightarrow> int"
  ae_scramble :: "8 word list"
  ae_clock :: refresh_clock
  dcb_write_ok :: bool

definition call_validate :: "'c auth_env \<Rightarrow> 'c auth_world \<Rightarrow> int \<times> 'c auth_world" where
  "call_validate env w =
     (validate_mysql_user env (user_cache (aw_service w)) (aw_client_data w) (ae_scramble env),
      w\<lparr>auth_calls := auth_calls w @ [Call_validate_mysql_user (aw_client_data w) (ae_scramble env)]\<rparr>)"

definition call_refresh :: "'c auth_env \<Rightarrow> 'c auth_world \<Rightarrow> int \<times> 'c auth_world" where
  "call_refresh env w =
     (case service_refresh_users (ae_clock env) (aw_service w) of
        (rc, svc') \<Rightarrow> (rc, w\<lparr>aw_service := svc',
                              auth_calls := auth_calls w @ [Call_service_refresh_users]\<rparr>))"

definition free_auth_token :: "'c auth_world \<Rightarrow> 'c auth_world" where
  "free_auth_token w = w\<lparr>aw_client_data := (aw_client_data w)\<lparr>auth_token := None\<rparr>\<rparr>"

definition authenticate :: "'c auth_env \<Rightarrow> 'c auth_world \<Rightarrow> int \<times> 'c auth_world" where
  "authenticate env w =
     (if ses_user (aw_client_data w) = [] then (MXS_AUTH_SSL_COMPLETE, w)
      else if \<not> correct_authenticator (aw_client_data w)
      then (if dcb_write_ok env
            then (MXS_AUTH_INCOMPLETE,
                  w\<lparr>aw_client_data := (aw_client_data w)\<lparr>auth_switch_sent := True\<rparr>\<rparr>)
            else (MXS_AUTH_FAILED, w))
      else
        (let (auth_ret1, w1) = call_validate env w;
             (auth_ret2, w2) =
               (if auth_ret1 \<noteq> MXS_AUTH_SUCCEEDED
                then (let (rc, wr) = call_refresh env w1
                      in if rc = 0 then call_validate env wr else (auth_ret1, wr))
                else (auth_ret1, w1));
             w3 = (if auth_ret2 = MXS_AUTH_SUCCEEDED
                   then w2\<lparr>aw_dcb_user := Some (ses_user (aw_client_data w2))\<rparr>
                   else w2)
         in (auth_ret2, free_auth_token w3)))"

text \<open>A concrete service for the examples below: the user cache is the list of the
  known user names, the client logs in as \<open>bob\<close>, who is not in the cache yet, and the
  single listener of the service reloads the cache as given.\<close>

definition known_users_env :: "string list auth_env" where
  "known_users_env =
     \<lparr>validate_mysql_user = (\<lambda>cache cd scr. if ses_user cd \<in> set cache then 0 else 1),
      ae_scramble = [1, 2, 3],
      ae_clock = \<lparr>current_worker_id = 0, now = 1000, maxscale_started = 10,
                  users_refresh_time = 30\<rparr>,
      dcb_write_ok = True\<rparr>"

definition bob_session :: mysql_session where
  "bob_session = \<lparr>ses_user = ''bob'', ses_db = [], correct_authenticator = True,
                   auth_switch_sent = False, auth_token = Some [7]\<rparr>"

definition auth_world_of ::
  "(string list \<Rightarrow> loadusers_result \<times> string list) \<Rightarrow> string list auth_world" where
  "auth_world_of load_users =
     \<lparr>aw_service = \<lparr>capabilities_async = False,
                    rate_limits = (\<lambda>w. \<lparr>rl_last = 0, rl_warned = False\<rparr>),
                    listeners = [load_users],
                    user_cache = [''alice'']\<rparr>,
      aw_client_data = bob_session,
      aw_dcb_user = None,
      auth_calls = []\<rparr>"

section \<open>Client protocol: COM\_CHANGE\_USER\<close>

text \<open>
  \<^verbatim>\<open>reauthenticate_client\<close>, \<^verbatim>\<open>handle_change_user\<close> and the loop of
  \<^verbatim>\<open>route_by_statement\<close>. A buffer is the list of its bytes and a \<^verbatim>\<open>GWBUF*\<close> that may be
  \<^verbatim>\<open>NULL\<close> is an option. What the protocol sends to the client and what it hands to the
  router is recorded in \<open>cp_events\<close>, in order. A read outside of a buffer (undefined
  behaviour in the source) makes the model return \<open>None\<close>, and so does the \<^verbatim>\<open>strcpy\<close> of a
  user or database name that is longer than the field of \<^verbatim>\<open>MYSQL_session\<close> it is copied
  to (\<^verbatim>\<open>char user[MYSQL_USER_MAXLEN + 1]\<close>, \<^verbatim>\<open>char db[MYSQL_DATABASE_MAXLEN + 1]\<close>).
\<close>

type_synonym buffer = "8 word list"

definition MXS_COM_CHANGE_USER :: "8 word" where "MXS_COM_CHANGE_USER = 0x11"

definition MYSQL_HEADER_LEN :: nat where "MYSQL_HEADER_LEN = 4"

definition MYSQL_USER_MAXLEN :: nat where "MYSQL_USER_MAXLEN = 128"

definition MYSQL_DATABASE_MAXLEN :: nat where "MYSQL_DATABASE_MAXLEN = 128"

datatype client_event =
  Send_auth_switch_request
| Send_auth_error nat string
| Handle_authentication_errors int nat
| Write_error_message string
| Route_query buffer
| Log_reauthentication_failed

record mysql_protocol =
  changing_user :: bool
  reply_command :: "8 word"
  stored_query :: "buffer option"
  charset :: nat

record client_protocol =
  cp_proto :: mysql_protocol
  cp_ses_changing_user :: bool
  cp_ses_user :: buffer
  cp_ses_db :: buffer
  cp_events :: "client_event list"

text \<open>The parts of the environment that are not in the files at hand: the authenticator
  of the client connection (\<^verbatim>\<open>capabilities\<close>, \<^verbatim>\<open>reauthenticate\<close>), the command tracking
  of the protocol object, the handling of \<^verbatim>\<open>SET\<close> variables and of special commands, and
  the router below the protocol.\<close>

record client_env =
  cap_reauthenticate :: bool
  auth_reauthenticate :: "buffer \<Rightarrow> buffer \<Rightarrow> int"
  track_query :: "mysql_protocol \<Rightarrow> buffer \<Rightarrow> mysql_protocol"
  handle_variables :: "buffer \<Rightarrow> string option"
  protocol_write :: "string \<Rightarrow> int"
  special_command_ends :: "buffer \<Rightarrow> 8 word \<Rightarrow> bool"
  do_routeQuery :: "buffer \<Rightarrow> int"

definition cp_emit :: "client_event \<Rightarrow> client_protocol \<Rightarrow> client_protocol" where
  "cp_emit e st = st\<lparr>cp_events := cp_events st @ [e]\<rparr>"

definition reauthenticate_client ::
  "client_env \<Rightarrow> client_protocol \<Rightarrow> buffer \<Rightarrow> (bool \<times> client_protocol) option" where
  "reauthenticate_client env st packetbuf =
     (if \<not> cap_reauthenticate env then Some (False, st)
      else case stored_query (cp_proto st) of
        None \<Rightarrow> None
      | Some orig_payload \<Rightarrow>
         if length orig_payload < MYSQL_HEADER_LEN + 1 then None
         else
          (let it1 = drop (MYSQL_HEADER_LEN + 1) orig_payload;
               user = takeWhile (\<lambda>b. b \<noteq> 0) it1
           in if length user = length it1
              then Some (False, cp_emit (Send_auth_error 3 ''Malformed AuthSwitchRequest packet'') st)
              else
               (let it2 = drop (length user + 1) it1
                in case it2 of
                     [] \<Rightarrow> None
                   | token_len # it3 \<Rightarrow>
                      if unat token_len > length it3 then None
                      else
                       (let it4 = drop (unat token_len) it3;
                            db = takeWhile (\<lambda>b. b \<noteq> 0) it4
                        in if length db = length it4
                           then Some (False,
                                  cp_emit (Send_auth_error 3 ''Malformed AuthSwitchRequest packet'') st)
                           else
                            (case drop (length db + 1) it4 of
                               c0 # c1 # _ \<Rightarrow>
                                 if length user > MYSQL_USER_MAXLEN
                                    \<or> length db > MYSQL_DATABASE_MAXLEN then None
                                 else if length packetbuf < MYSQL_HEADER_LEN then None
                                 else
                                  (let st1 = st\<lparr>cp_proto := (cp_proto st)\<lparr>charset := unat c0 + 256 * unat c1\<rparr>,
                                                 cp_ses_user := user, cp_ses_db := db\<rparr>;
                                       payload = drop MYSQL_HEADER_LEN packetbuf;
                                       rc = auth_reauthenticate env user payload
                                   in if rc = MXS_AUTH_SUCCEEDED then Some (True, st1)
                                      else Some (False, cp_emit (Handle_authentication_errors rc 3) st1))
                             | _ \<Rightarrow> None)))))"

text \<open>\<^verbatim>\<open>handle_change_user\<close> returns its local \<^verbatim>\<open>ok\<close>, the output parameter
  \<^verbatim>\<open>changed_user\<close>, the packet left in \<^verbatim>\<open>*packetbuf\<close> and the new state. In the second
  branch the source declares a new variable \<^verbatim>\<open>bool ok\<close> for the result of
  \<^verbatim>\<open>reauthenticate_client\<close>; the function returns the outer \<^verbatim>\<open>ok\<close>, which is still
  true there.\<close>

definition handle_change_user ::
  "client_env \<Rightarrow> client_protocol \<Rightarrow> bool \<Rightarrow> buffer \<Rightarrow>
     (bool \<times> bool \<times> buffer option \<times> client_protocol) option" where
  "handle_change_user env st changed_user packetbuf =
     (let ok = True
      in if \<not> changing_user (cp_proto st) \<and> reply_command (cp_proto st) = MXS_COM_CHANGE_USER
         then (let st1 = cp_emit Send_auth_switch_request (st\<lparr>cp_ses_changing_user := True\<rparr>)
               in Some (ok, True, None,
                        st1\<lparr>cp_proto := (cp_proto st1)\<lparr>stored_query := Some packetbuf\<rparr>\<rparr>))
         else if changing_user (cp_proto st)
         then (let st1 = st\<lparr>cp_proto := (cp_proto st)\<lparr>changing_user := False\<rparr>\<rparr>
               in case reauthenticate_client env st1 packetbuf of
                    None \<Rightarrow> None
                  | Some (inner_ok, st2) \<Rightarrow>
                      Some (ok, changed_user, stored_query (cp_proto st2),
                            st2\<lparr>cp_proto := (cp_proto st2)\<lparr>stored_query := None\<rparr>\<rparr>))
         else Some (ok, changed_user, Some packetbuf, st))"

text \<open>The loop of \<^verbatim>\<open>route_by_statement\<close> over the packets that
  \<^verbatim>\<open>modutil_get_next_MySQL_packet\<close> takes from the read buffer. The transaction tracking
  of the loop body changes nothing that is modelled here.\<close>

fun route_by_statement ::
  "client_env \<Rightarrow> client_protocol \<Rightarrow> int \<Rightarrow> buffer list \<Rightarrow> (int \<times> client_protocol) option" where
  "route_by_statement env st rc [] = Some (rc, st)"
| "route_by_statement env st rc (packetbuf # rest) =
     (let st1 = st\<lparr>cp_proto := track_query env (cp_proto st) packetbuf\<rparr>
      in case handle_variables env packetbuf of
           Some message \<Rightarrow>
             route_by_statement env (cp_emit (Write_error_message message) st1)
               (protocol_write env message) rest
         | None \<Rightarrow>
             if special_command_ends env packetbuf (reply_command (cp_proto st1))
             then route_by_statement env st1 rc rest
             else
              (case handle_change_user env st1 False packetbuf of
                 None \<Rightarrow> None
               | Some (ok, changed_user, packetbuf', st2) \<Rightarrow>
                   if \<not> ok then Some (0, cp_emit Log_reauthentication_failed st2)
                   else
                    (let (rc', st3) =
                           (case packetbuf' of
                              Some b \<Rightarrow> (do_routeQuery env b, cp_emit (Route_query b) st2)
                            | None \<Rightarrow> (rc, st2));
                         st4 = st3\<lparr>cp_proto := (cp_proto st3)\<lparr>changing_user := changed_user\<rparr>\<rparr>
                     in if rc' \<noteq> 1 then Some (rc', st4)
                        else route_by_statement env st4 rc' rest)))"

text \<open>A concrete exchange: the client sends \<^verbatim>\<open>COM_CHANGE_USER\<close> for user \<open>bob\<close> (empty
  token, empty database, character set 33) and then an empty response to the
  authentication switch request; the authenticator rejects the new credentials.\<close>

definition change_user_packet :: buffer where
  "change_user_packet = [0x09, 0, 0, 0, 0x11, 0x62, 0x6f, 0x62, 0, 0, 0, 0x21, 0]"

definition auth_switch_response :: buffer where
  "auth_switch_response = [0, 0, 0, 3]"

definition rejecting_env :: client_env where
  "rejecting_env =
     \<lparr>cap_reauthenticate = True,
      auth_reauthenticate = (\<lambda>user token. 1),
      track_query = (\<lambda>proto b. if changing_user proto then proto
                                else proto\<lparr>reply_command := b ! 4\<rparr>),
      handle_variables = (\<lambda>b. None),
      protocol_write = (\<lambda>m. 1),
      special_command_ends = (\<lambda>b c. False),
      do_routeQuery = (\<lambda>b. 1)\<rparr>"

definition fresh_client :: client_protocol where
  "fresh_client =
     \<lparr>cp_proto = \<lparr>changing_user = False, reply_command = 0, stored_query = None, charset = 8\<rparr>,
      cp_ses_changing_user = False,
      cp_ses_user = [0x61],
      cp_ses_db = [],
      cp_events = []\<rparr>"

section \<open>Read/write split router: buffers and transactions\<close>

text \<open>
  A \<^verbatim>\<open>GWBUF\<close> of the router is its bytes together with the marks the router reads: the
  type bit \<^verbatim>\<open>GWBUF_TYPE_REPLAYED\<close>, the chain of routing hints (newest first), the
  \<^verbatim>\<open>GWBUF_IS_REPLY_OK\<close> bit and the \<^verbatim>\<open>MXS_LAST_GTID\<close> property. A pointer that may be
  \<^verbatim>\<open>NULL\<close>, and an \<^verbatim>\<open>mxs::Buffer\<close> that may hold nothing, is an option.
\<close>

datatype hint_type = HINT_ROUTE_TO_MASTER | HINT_ROUTE_TO_SLAVE | HINT_ROUTE_TO_NAMED_SERVER

record gwbuf =
  gw_data :: "8 word list"
  gw_replayed :: bool
  gw_hint :: "hint_type list"
  gw_reply_ok :: bool
  gw_last_gtid :: "string option"

definition buffer_length :: "gwbuf option \<Rightarrow> nat" where
  "buffer_length b = (case b of None \<Rightarrow> 0 | Some g \<Rightarrow> length (gw_data g))"

definition hint_create_route :: "hint_type list \<Rightarrow> hint_type \<Rightarrow> hint_type list" where
  "hint_create_route head t = t # head"

definition MYSQL_SEQ_OFFSET :: nat where "MYSQL_SEQ_OFFSET = 3"
definition MYSQL_REPLY_ERR :: "8 word" where "MYSQL_REPLY_ERR = 0xff"
definition MYSQL_REPLY_OK :: "8 word" where "MYSQL_REPLY_OK = 0x00"

text \<open>\<^verbatim>\<open>gw_mysql_get_byte3\<close> at an offset of a byte sequence: the little-endian payload
  length of the packet header that starts there.\<close>

definition MYSQL_GET_PAYLOAD_LEN :: "8 word list \<Rightarrow> nat \<Rightarrow> nat" where
  "MYSQL_GET_PAYLOAD_LEN bytes off =
     unat (bytes ! off) + 256 * unat (bytes ! (off + 1)) + 65536 * unat (bytes ! (off + 2))"

text \<open>\<^verbatim>\<open>gwbuf_consume\<close> is declared outside the files at hand: it removes the given number
  of bytes from the front of the buffer and returns \<^verbatim>\<open>NULL\<close> when nothing is left.\<close>

definition gwbuf_consume :: "gwbuf \<Rightarrow> nat \<Rightarrow> gwbuf option" where
  "gwbuf_consume b n =
     (if n \<ge> length (gw_data b) then None else Some (b\<lparr>gw_data := drop n (gw_data b)\<rparr>))"

text \<open>
  Modelled from the spec: the classes \<^verbatim>\<open>Trx\<close> and \<^verbatim>\<open>SHA1Checksum\<close> are used by the
  router session but defined outside the files at hand. The transaction record is the
  ordered list of the statements executed since the transaction began, their total size in
  bytes, and a running checksum of the concatenated bytes of every server-sent packet
  that belongs to them. The checksum keeps the bytes fed to it since it was last reset
  (\<open>sha_ctx\<close>) and the digest computed when it was last finalized (\<open>sha_sum\<close>); two
  checksums are compared by their digests. The digest function is the parameter
  \<open>sha1\<close> of the operations that finalize.
\<close>

record sha1_checksum =
  sha_ctx :: "8 word list"
  sha_sum :: "8 word list"

record trx =
  trx_checksum :: sha1_checksum
  trx_log :: "gwbuf list"
  trx_size :: nat

definition checksum_update :: "gwbuf \<Rightarrow> sha1_checksum \<Rightarrow> sha1_checksum" where
  "checksum_update b c = c\<lparr>sha_ctx := sha_ctx c @ gw_data b\<rparr>"

definition checksum_finalize :: "(8 word list \<Rightarrow> 8 word list) \<Rightarrow> sha1_checksum \<Rightarrow> sha1_checksum" where
  "checksum_finalize sha1 c = c\<lparr>sha_sum := sha1 (sha_ctx c)\<rparr>"

definition checksum_reset :: "sha1_checksum \<Rightarrow> sha1_checksum" where
  "checksum_reset c = c\<lparr>sha_ctx := []\<rparr>"

definition checksum_eq :: "sha1_checksum \<Rightarrow> sha1_checksum \<Rightarrow> bool" where
  "checksum_eq a b = (sha_sum a = sha_sum b)"

definition empty_trx :: trx where
  "empty_trx = \<lparr>trx_checksum = \<lparr>sha_ctx = [], sha_sum = replicate 20 0\<rparr>, trx_log = [], trx_size = 0\<rparr>"

definition trx_add_stmt :: "gwbuf \<Rightarrow> trx \<Rightarrow> trx" where
  "trx_add_stmt b t = t\<lparr>trx_size := trx_size t + length (gw_data b), trx_log := trx_log t @ [b]\<rparr>"

definition trx_add_result :: "gwbuf \<Rightarrow> trx \<Rightarrow> trx" where
  "trx_add_result b t = t\<lparr>trx_checksum := checksum_update b (trx_checksum t)\<rparr>"

definition trx_have_stmts :: "trx \<Rightarrow> bool" where
  "trx_have_stmts t = (trx_log t \<noteq> [])"

definition trx_empty :: "trx \<Rightarrow> bool" where
  "trx_empty t = (trx_size t = 0)"

definition trx_finalize :: "(8 word list \<Rightarrow> 8 word list) \<Rightarrow> trx \<Rightarrow> trx" where
  "trx_finalize sha1 t = t\<lparr>trx_checksum := checksum_finalize sha1 (trx_checksum t)\<rparr>"

definition trx_close :: "trx \<Rightarrow> trx" where
  "trx_close t = t\<lparr>trx_checksum := checksum_reset (trx_checksum t), trx_log := [], trx_size := 0\<rparr>"

section \<open>Read/write split router: the session\<close>

datatype otrx_state = OTRX_INACTIVE | OTRX_STARTING | OTRX_ACTIVE | OTRX_ROLLBACK

datatype wait_gtid_state = NONE | WAITING_FOR_HEADER | RETRYING_ON_MASTER | UPDATING_PACKETS

datatype load_data_state = LOAD_DATA_INACTIVE | LOAD_DATA_ACTIVE | LOAD_DATA_END

datatype current_target =
  CURRENT_TARGET_UNDEFINED | CURRENT_TARGET_MASTER | CURRENT_TARGET_SLAVE

text \<open>The error packet that \<^verbatim>\<open>modutil_create_mysql_err_msg\<close> builds is kept as the
  arguments of the call: packet number, affected rows, error number, SQL state and
  message.\<close>

datatype mysql_err_msg = Mysql_err_msg nat nat nat string string

text \<open>What leaves the session through functions that are outside the files at hand:
  \<^verbatim>\<open>retry_query\<close> (the buffer and the delay), \<^verbatim>\<open>MXS_SESSION::terminate\<close> (with the error
  sent to the client, if any).\<close>

datatype rws_event =
  Retry_query gwbuf int
| Terminate "mysql_err_msg option"

record rws_config =
  transaction_replay :: bool
  trx_max_size :: nat
  trx_max_attempts :: int
  causal_reads :: bool
  retry_failed_reads :: bool
  delayed_retry :: bool
  delayed_retry_timeout :: nat

text \<open>The state of the query classifier that the session reads.\<close>

record query_classifier =
  qc_load_data_state :: load_data_state
  qc_large_query :: bool

text \<open>A backend (\<^verbatim>\<open>RWBackend\<close>), as far as the session asks it. A pointer to a backend
  is its index in \<open>backends\<close>.\<close>

record rw_backend =
  b_in_use :: bool
  b_has_session_commands :: bool
  b_is_waiting_result :: bool
  b_is_replaying_history :: bool
  b_next_session_command :: gwbuf

text \<open>The members of \<^verbatim>\<open>RWSplitSession\<close> that the modelled functions read or write, and
  the flags of the client session (\<^verbatim>\<open>MXS_SESSION\<close>) they ask for. \<open>dispatched\<close> lists the
  statements for which \<^verbatim>\<open>routeQuery\<close> has called \<^verbatim>\<open>route_single_stmt\<close>, in order, and
  \<open>rws_events\<close> what left the session.\<close>

record rws =
  m_config :: rws_config
  backends :: "nat \<Rightarrow> rw_backend"
  m_current_master :: "nat option"
  m_target_node :: "nat option"
  m_sescmd_count :: nat
  m_sescmd_list :: "nat list"
  m_expected_responses :: int
  m_query_queue :: "gwbuf option list"
  m_gtid_pos :: string
  m_wait_gtid :: wait_gtid_state
  m_next_seq :: "32 word"
  m_qc :: query_classifier
  m_retry_duration :: nat
  m_current_query :: "gwbuf option"
  m_trx :: trx
  m_is_replay_active :: bool
  m_can_replay_trx :: bool
  m_replayed_trx :: trx
  m_interrupted_query :: "gwbuf option"
  m_orig_trx :: trx
  m_orig_stmt :: "gwbuf option"
  m_num_trx_replays :: int
  m_otrx_state :: otrx_state
  session_trx_is_active :: bool
  session_trx_is_ending :: bool
  session_is_load_active :: bool
  dispatched :: "gwbuf list"
  rws_events :: "rws_event list"

text \<open>\<^verbatim>\<open>retry_query\<close> is declared in the class but defined outside the files at hand: it
  marks the buffer as replayed and hands it to the session for delayed routing, so that
  it comes back through \<^verbatim>\<open>routeQuery\<close> later.\<close>

definition retry_query :: "gwbuf \<Rightarrow> int \<Rightarrow> rws \<Rightarrow> rws" where
  "retry_query querybuf delay s =
     s\<lparr>rws_events := rws_events s @ [Retry_query (querybuf\<lparr>gw_replayed := True\<rparr>) delay],
       m_retry_duration := m_retry_duration s + 1\<rparr>"

definition terminate :: "mysql_err_msg option \<Rightarrow> rws \<Rightarrow> rws" where
  "terminate e s = s\<lparr>rws_events := rws_events s @ [Terminate e]\<rparr>"

subsection \<open>Causal reads\<close>

text \<open>\<^verbatim>\<open>discard_master_wait_gtid_result\<close>. Fewer than five bytes in the buffer leave
  \<^verbatim>\<open>header_and_command\<close> partly unset; the model returns \<open>None\<close> there. The local
  \<^verbatim>\<open>packet_len\<close> is a \<^verbatim>\<open>uint8_t\<close>.\<close>

definition discard_master_wait_gtid_result :: "rws \<Rightarrow> gwbuf \<Rightarrow> (gwbuf option \<times> rws) option" where
  "discard_master_wait_gtid_result s buffer =
     (if length (gw_data buffer) < MYSQL_HEADER_LEN + 1 then None
      else if gw_data buffer ! 4 = MYSQL_REPLY_OK
      then (let packet_len :: 8 word =
                  of_nat (MYSQL_GET_PAYLOAD_LEN (gw_data buffer) 0 + MYSQL_HEADER_LEN)
            in Some (gwbuf_consume buffer (unat packet_len),
                     s\<lparr>m_wait_gtid := UPDATING_PACKETS, m_next_seq := 1\<rparr>))
      else if gw_data buffer ! 4 = MYSQL_REPLY_ERR
      then Some (Some buffer, s\<lparr>m_wait_gtid := RETRYING_ON_MASTER\<rparr>)
      else Some (Some buffer, s))"

text \<open>\<^verbatim>\<open>correct_packet_sequence\<close>: the loop runs while three header bytes can be copied
  from \<^verbatim>\<open>offset\<close>. \<^verbatim>\<open>gwbuf_byte_pointer\<close> is \<^verbatim>\<open>NULL\<close> for an offset outside the buffer, and
  the write through it is then undefined (\<open>None\<close>). The byte written is the low byte of
  the 32-bit \<^verbatim>\<open>m_next_seq\<close>. Offsets are far below \<open>2^32\<close>.\<close>

function correct_packet_sequence :: "8 word list \<Rightarrow> nat \<Rightarrow> 32 word \<Rightarrow> (8 word list \<times> 32 word) option" where
  "correct_packet_sequence bytes offset next_seq =
     (if offset + 3 \<le> length bytes
      then (if offset + MYSQL_SEQ_OFFSET < length bytes
            then correct_packet_sequence (bytes[offset + MYSQL_SEQ_OFFSET := ucast next_seq])
                   (offset + (MYSQL_GET_PAYLOAD_LEN bytes offset + MYSQL_HEADER_LEN)) (next_seq + 1)
            else None)
      else Some (bytes, next_seq))"
  by pat_completeness auto
termination
  by (relation "measure (\<lambda>(bytes, offset, next_seq). length bytes - offset)")
     (auto simp: MYSQL_HEADER_LEN_def)

declare correct_packet_sequence.simps [simp del]

definition handle_causal_read_reply ::
  "rws \<Rightarrow> gwbuf \<Rightarrow> nat \<Rightarrow> (gwbuf option \<times> rws) option" where
  "handle_causal_read_reply s writebuf backend =
     (if causal_reads (m_config s)
      then
       (let s1 = (if gw_reply_ok writebuf \<and> Some backend = m_current_master s
                  then (case gw_last_gtid writebuf of
                          Some tmp \<Rightarrow> s\<lparr>m_gtid_pos := tmp\<rparr> | None \<Rightarrow> s)
                  else s)
        in case (if m_wait_gtid s1 = WAITING_FOR_HEADER
                 then discard_master_wait_gtid_result s1 writebuf
                 else Some (Some writebuf, s1)) of
             None \<Rightarrow> None
           | Some (None, s2) \<Rightarrow> Some (None, s2)
           | Some (Some wb, s2) \<Rightarrow>
               if m_wait_gtid s2 = UPDATING_PACKETS
               then (case correct_packet_sequence (gw_data wb) 0 (m_next_seq s2) of
                       None \<Rightarrow> None
                     | Some (bytes, seq) \<Rightarrow>
                         Some (Some (wb\<lparr>gw_data := bytes\<rparr>), s2\<lparr>m_next_seq := seq\<rparr>))
               else Some (Some wb, s2))
      else Some (Some writebuf, s))"

subsection \<open>Erasing the last packet of a reply\<close>

text \<open>\<^verbatim>\<open>skip_packet\<close> on an iterator at \<^verbatim>\<open>offset\<close>: three header bytes are read and the
  iterator advances over the sequence byte and the payload. Reading at the end of the
  buffer, or advancing beyond it, is outside the iterator's contract (\<open>None\<close>).\<close>

definition skip_packet :: "8 word list \<Rightarrow> nat \<Rightarrow> nat option" where
  "skip_packet bytes it =
     (if it + 3 > length bytes then None
      else (let len = MYSQL_GET_PAYLOAD_LEN bytes it
            in if it + 3 + (len + 1) > length bytes then None else Some (it + 3 + (len + 1))))"

text \<open>The \<^verbatim>\<open>while\<close> loop of \<^verbatim>\<open>erase_last_packet\<close>; the result is the final \<^verbatim>\<open>it\<close>, the
  start of the range that is erased up to the end of the buffer.\<close>

function last_packet_start :: "8 word list \<Rightarrow> nat \<Rightarrow> nat option" where
  "last_packet_start bytes it =
     (case skip_packet bytes it of
        None \<Rightarrow> None
      | Some end \<Rightarrow> if end \<noteq> length bytes then last_packet_start bytes end else Some it)"
  by pat_completeness auto
termination
  by (relation "measure (\<lambda>(bytes, it). length bytes - it)")
     (auto simp: skip_packet_def Let_def split: if_splits)

declare last_packet_start.simps [simp del]

text \<open>\<^verbatim>\<open>erase_last_packet\<close>: erasing the whole content leaves an \<^verbatim>\<open>mxs::Buffer\<close> that
  holds nothing, and \<^verbatim>\<open>release\<close> then yields \<^verbatim>\<open>NULL\<close>.\<close>

definition erase_last_packet :: "gwbuf \<Rightarrow> gwbuf option option" where
  "erase_last_packet input =
     (case last_packet_start (gw_data input) 0 of
        None \<Rightarrow> None
      | Some it \<Rightarrow> Some (if it = 0 then None else Some (input\<lparr>gw_data := take it (gw_data input)\<rparr>)))"

subsection \<open>Routing and queueing of client statements\<close>

text \<open>
  The functions of the session and of its collaborators that are declared but not defined
  in the files at hand are parameters: the digest function of the checksum,
  \<^verbatim>\<open>route_single_stmt\<close>, \<^verbatim>\<open>QueryClassifier::update_route_info\<close>,
  \<^verbatim>\<open>process_sescmd_response\<close>, and the methods \<^verbatim>\<open>ack_write\<close> and
  \<^verbatim>\<open>execute_session_command\<close> of a backend.
\<close>

record rws_env =
  sha1 :: "8 word list \<Rightarrow> 8 word list"
  route_single_stmt :: "gwbuf \<Rightarrow> rws \<Rightarrow> bool \<times> rws"
  update_route_info :: "query_classifier \<Rightarrow> current_target \<Rightarrow> gwbuf \<Rightarrow> query_classifier"
  process_sescmd_response :: "nat \<Rightarrow> gwbuf \<Rightarrow> rws \<Rightarrow> gwbuf option \<times> rws"
  ack_write :: "rw_backend \<Rightarrow> rw_backend"
  execute_session_command :: "rw_backend \<Rightarrow> bool \<times> rw_backend"

definition can_route_queries :: "rws \<Rightarrow> bool" where
  "can_route_queries s =
     (m_expected_responses s = 0
      \<or> qc_load_data_state (m_qc s) = LOAD_DATA_ACTIVE
      \<or> qc_large_query (m_qc s))"

definition get_current_target :: "rws \<Rightarrow> current_target" where
  "get_current_target s =
     (if m_target_node s = None then CURRENT_TARGET_UNDEFINED
      else if m_target_node s = m_current_master s then CURRENT_TARGET_MASTER
      else CURRENT_TARGET_SLAVE)"

definition routeQuery :: "rws_env \<Rightarrow> rws \<Rightarrow> gwbuf \<Rightarrow> int \<times> rws" where
  "routeQuery env s querybuf =
     (if m_is_replay_active s \<and> \<not> gw_replayed querybuf
      then (1, s\<lparr>m_query_queue := m_query_queue s @ [Some querybuf]\<rparr>)
      else if (m_query_queue s = [] \<or> gw_replayed querybuf) \<and> can_route_queries s
      then
       (let s1 = (if \<not> qc_large_query (m_qc s)
                  then (let qc1 = (if qc_load_data_state (m_qc s) = LOAD_DATA_INACTIVE
                                      \<and> session_is_load_active s
                                   then (m_qc s)\<lparr>qc_load_data_state := LOAD_DATA_ACTIVE\<rparr>
                                   else m_qc s)
                        in s\<lparr>m_qc := update_route_info env qc1 (get_current_target s) querybuf\<rparr>)
                  else s);
            (ok, s2) = route_single_stmt env querybuf (s1\<lparr>dispatched := dispatched s1 @ [querybuf]\<rparr>)
        in (if ok then 1 else 0, s2))
      else (1, s\<lparr>m_query_queue := m_query_queue s @ [Some querybuf]\<rparr>))"

text \<open>The loop of \<^verbatim>\<open>route_stored_query\<close>. Its arguments are \<^verbatim>\<open>rval\<close>, the session with
  an empty \<^verbatim>\<open>m_query_queue\<close> and the queue itself: the loop pops the front, keeps the rest
  in \<^verbatim>\<open>temp_storage\<close> and calls \<^verbatim>\<open>routeQuery\<close> with the session's queue empty. If the call
  left the queue empty the loop goes on with \<^verbatim>\<open>temp_storage\<close>; otherwise the front of what
  the call queued is put before \<^verbatim>\<open>temp_storage\<close> and the loop ends.\<close>

fun route_stored_loop :: "rws_env \<Rightarrow> bool \<Rightarrow> rws \<Rightarrow> gwbuf option list \<Rightarrow> bool \<times> rws" where
  "route_stored_loop env rval s [] = (rval, s\<lparr>m_query_queue := []\<rparr>)"
| "route_stored_loop env rval s (None # temp_storage) = route_stored_loop env rval s temp_storage"
| "route_stored_loop env rval s (Some query # temp_storage) =
     (case routeQuery env (s\<lparr>m_query_queue := []\<rparr>) query of
        (rc, s1) \<Rightarrow>
          (let rval1 = (if rc = 0 then False else rval)
           in case m_query_queue s1 of
                [] \<Rightarrow> route_stored_loop env rval1 s1 temp_storage
              | front # _ \<Rightarrow> (rval1, s1\<lparr>m_query_queue := front # temp_storage\<rparr>)))"

definition route_stored_query :: "rws_env \<Rightarrow> rws \<Rightarrow> bool \<times> rws" where
  "route_stored_query env s = route_stored_loop env True s (m_query_queue s)"

subsection \<open>Transaction replay\<close>

definition checksum_mismatch_error :: mysql_err_msg where
  "checksum_mismatch_error =
     Mysql_err_msg 1 0 1927 ''08S01''
       ''Transaction checksum mismatch encountered when replaying transaction.''"

definition trx_replay_next_stmt :: "rws_env \<Rightarrow> rws \<Rightarrow> rws" where
  "trx_replay_next_stmt env s =
     (case trx_log (m_replayed_trx s) of
        buf # rest \<Rightarrow>
          retry_query buf 0 (s\<lparr>m_replayed_trx := (m_replayed_trx s)\<lparr>trx_log := rest\<rparr>\<rparr>)
      | [] \<Rightarrow>
         (let s1 = s\<lparr>m_is_replay_active := False, m_num_trx_replays := 0\<rparr>
          in if \<not> trx_empty (m_replayed_trx s1)
             then (let chksum = checksum_finalize (sha1 env) (trx_checksum (m_trx s1))
                   in if checksum_eq chksum (trx_checksum (m_replayed_trx s1))
                      then (case m_interrupted_query s1 of
                              Some q \<Rightarrow> retry_query q 0 (s1\<lparr>m_interrupted_query := None\<rparr>)
                            | None \<Rightarrow>
                                if m_query_queue s1 \<noteq> [] then snd (route_stored_query env s1)
                                else s1)
                      else (terminate (Some checksum_mismatch_error) s1)
                             \<lparr>m_is_replay_active := True\<rparr>)
             else s1))"

text \<open>\<^verbatim>\<open>start_trx_replay\<close>. The predicate that erases the replayed queries from the queue
  reads the type of every queued buffer; for an entry that holds no buffer this is a read
  through \<^verbatim>\<open>NULL\<close>, and the model returns \<open>None\<close>.\<close>

definition start_trx_replay :: "rws_env \<Rightarrow> rws \<Rightarrow> (bool \<times> rws) option" where
  "start_trx_replay env s =
     (if transaction_replay (m_config s) \<and> m_can_replay_trx s
         \<and> m_num_trx_replays s < trx_max_attempts (m_config s)
      then
       (let s1 = s\<lparr>m_num_trx_replays := m_num_trx_replays s + 1\<rparr>
        in if \<not> m_is_replay_active s1 \<or> None \<notin> set (m_query_queue s1)
           then
            (let s2 = (if \<not> m_is_replay_active s1
                       then s1\<lparr>m_orig_trx := m_trx s1, m_orig_stmt := m_current_query s1\<rparr>
                       else s1\<lparr>m_replayed_trx := trx_close (m_replayed_trx s1),
                              m_trx := m_orig_trx s1,
                              m_current_query := m_orig_stmt s1,
                              m_query_queue :=
                                filter (\<lambda>b. \<not> gw_replayed (the b)) (m_query_queue s1)\<rparr>)
             in if trx_have_stmts (m_trx s2) \<or> m_current_query s2 \<noteq> None
                then
                 (let s3 = s2\<lparr>m_interrupted_query := m_current_query s2, m_current_query := None\<rparr>;
                      s4 = s3\<lparr>m_is_replay_active := True,
                              m_replayed_trx := trx_finalize (sha1 env) (m_trx s3),
                              m_trx := trx_close (m_trx s3)\<rparr>
                  in case trx_log (m_replayed_trx s4) of
                       buf # rest \<Rightarrow>
                         Some (True, retry_query buf 1
                                 (s4\<lparr>m_replayed_trx := (m_replayed_trx s4)\<lparr>trx_log := rest\<rparr>\<rparr>))
                     | [] \<Rightarrow>
                        (case m_interrupted_query s4 of
                           Some q \<Rightarrow> Some (True, retry_query q 1 (s4\<lparr>m_interrupted_query := None\<rparr>))
                         | None \<Rightarrow> None))
                else Some (True, s2))
           else None)
      else Some (False, s))"

text \<open>\<^verbatim>\<open>mxs_mysql_is_ok_packet\<close> is declared in the protocol header: the command byte of
  the packet is the one of an OK packet.\<close>

definition mxs_mysql_is_ok_packet :: "gwbuf \<Rightarrow> bool" where
  "mxs_mysql_is_ok_packet b =
     (case drop MYSQL_HEADER_LEN (gw_data b) of [] \<Rightarrow> False | c # _ \<Rightarrow> c = MYSQL_REPLY_OK)"

definition manage_transactions :: "rws \<Rightarrow> nat \<Rightarrow> gwbuf \<Rightarrow> rws" where
  "manage_transactions s backend writebuf =
     (if m_otrx_state s = OTRX_ROLLBACK
      then (if \<not> mxs_mysql_is_ok_packet writebuf then terminate None s else s)
      else if transaction_replay (m_config s) \<and> m_can_replay_trx s \<and> session_trx_is_active s
      then (if \<not> b_has_session_commands (backends s backend)
            then (let size = trx_size (m_trx s) + buffer_length (m_current_query s)
                  in if size < trx_max_size (m_config s)
                     then (let s1 = s\<lparr>m_trx := trx_add_result writebuf (m_trx s)\<rparr>
                           in case m_current_query s1 of
                                Some q \<Rightarrow> s1\<lparr>m_trx := trx_add_stmt q (m_trx s1),
                                              m_current_query := None\<rparr>
                              | None \<Rightarrow> s1)
                     else s\<lparr>m_current_query := None, m_trx := trx_close (m_trx s),
                            m_can_replay_trx := False\<rparr>)
            else s)
      else if m_wait_gtid s = RETRYING_ON_MASTER then s
      else s\<lparr>m_current_query := None\<rparr>)"

subsection \<open>Replies from the backends\<close>

text \<open>The reply as the protocol describes it to the router. The classification of the
  error (\<^verbatim>\<open>is_rollback\<close>, \<^verbatim>\<open>is_unexpected_error\<close>) is made by \<^verbatim>\<open>mxs::Error\<close>, outside the
  files at hand, and is given with the error.\<close>

record reply_error =
  err_code :: nat
  err_sql_state :: string
  err_message :: string
  err_is_rollback :: bool
  err_is_unexpected_error :: bool

record reply_info =
  rep_error :: reply_error
  rep_is_complete :: bool

definition is_wsrep_error :: "reply_error \<Rightarrow> bool" where
  "is_wsrep_error error =
     (err_code error = 1047 \<and> err_sql_state error = ''08S01''
      \<and> err_message error = ''WSREP has not yet prepared node for application use'')"

definition can_retry_query :: "rws \<Rightarrow> bool" where
  "can_retry_query s =
     (delayed_retry (m_config s)
      \<and> m_retry_duration s < delayed_retry_timeout (m_config s)
      \<and> \<not> session_trx_is_active s)"

definition backend_upd :: "(rw_backend \<Rightarrow> rw_backend) \<Rightarrow> nat \<Rightarrow> rws \<Rightarrow> rws" where
  "backend_upd f backend s = s\<lparr>backends := (backends s)(backend := f (backends s backend))\<rparr>"

text \<open>\<^verbatim>\<open>retry_master_query\<close>. Taking the front of an empty queue, or passing a queue entry
  that holds no buffer on to \<^verbatim>\<open>retry_query\<close>, is undefined (\<open>None\<close>).\<close>

definition retry_master_query :: "rws \<Rightarrow> nat \<Rightarrow> (bool \<times> rws) option" where
  "retry_master_query s backend =
     (if b_is_replaying_history (backends s backend)
      then (case m_query_queue s of
              Some q # rest \<Rightarrow> Some (True, (retry_query q 1 s)\<lparr>m_query_queue := rest\<rparr>)
            | _ \<Rightarrow> None)
      else if b_has_session_commands (backends s backend)
      then (if m_sescmd_count s < 2 \<or> m_sescmd_list s = [] then Some (False, s)
            else Some (True, retry_query (b_next_session_command (backends s backend)) 1
                               (s\<lparr>m_sescmd_list := butlast (m_sescmd_list s),
                                  m_sescmd_count := m_sescmd_count s - 1\<rparr>)))
      else (case m_current_query s of
              Some q \<Rightarrow> Some (True, retry_query q 1 (s\<lparr>m_current_query := None\<rparr>))
            | None \<Rightarrow> Some (False, s)))"

definition handle_ignorable_error :: "rws_env \<Rightarrow> rws \<Rightarrow> nat \<Rightarrow> (bool \<times> rws) option" where
  "handle_ignorable_error env s backend =
     (case (if session_trx_is_active s then start_trx_replay env s
            else if Some backend = m_current_master s
            then (if can_retry_query s then retry_master_query s backend else Some (False, s))
            else if retry_failed_reads (m_config s)
            then (case m_current_query s of
                    Some q \<Rightarrow> Some (True, retry_query q 1 (s\<lparr>m_current_query := None\<rparr>))
                  | None \<Rightarrow> None)
            else Some (False, s)) of
        None \<Rightarrow> None
      | Some (ok, s1) \<Rightarrow>
          Some (ok, if ok
                    then (backend_upd (ack_write env) backend s1)
                           \<lparr>m_expected_responses := m_expected_responses s1 - 1\<rparr>
                    else s1))"

text \<open>
  \<^verbatim>\<open>clientReply\<close> returns the buffer it passes to \<^verbatim>\<open>RouterSession::clientReply\<close>, that is,
  what is forwarded to the client (\<open>None\<close> when nothing is), and the session afterwards;
  the outer option is \<open>None\<close> where the source's behaviour is undefined. The function is
  written in three parts: \<open>clientReply_route_stored\<close> is its end, from the test whether
  the backend has more session commands to execute; \<open>clientReply_processed\<close> is the part
  from \<^verbatim>\<open>processed_sescmd\<close> on; \<open>clientReply_complete\<close> is the block for a complete
  reply. The statistics of the backend and \<^verbatim>\<open>close_stale_connections\<close>, which closes
  connections to servers that are no longer usable, are not part of the model.
\<close>

definition clientReply_route_stored ::
  "rws_env \<Rightarrow> rws \<Rightarrow> nat \<Rightarrow> bool \<Rightarrow> gwbuf option \<Rightarrow> gwbuf option \<times> rws" where
  "clientReply_route_stored env s backend processed_sescmd writebuf =
     (if b_in_use (backends s backend) \<and> b_has_session_commands (backends s backend)
      then (case execute_session_command env (backends s backend) of
              (executed, b') \<Rightarrow>
                (let s1 = s\<lparr>backends := (backends s)(backend := b')\<rparr>
                 in (writebuf,
                     if executed \<and> b_is_waiting_result b'
                     then s1\<lparr>m_expected_responses := m_expected_responses s1 + 1\<rparr>
                     else s1)))
      else if m_expected_responses s = 0 \<and> m_query_queue s \<noteq> []
              \<and> (\<not> m_is_replay_active s \<or> processed_sescmd)
      then (writebuf, snd (route_stored_query env s))
      else (writebuf, s))"

definition clientReply_processed ::
  "rws_env \<Rightarrow> rws \<Rightarrow> nat \<Rightarrow> gwbuf \<Rightarrow> gwbuf option \<times> rws" where
  "clientReply_processed env s backend writebuf =
     (let processed_sescmd = b_has_session_commands (backends s backend)
      in if processed_sescmd
         then (case process_sescmd_response env backend writebuf s of
                 (writebuf', s1) \<Rightarrow>
                   clientReply_route_stored env s1 backend processed_sescmd writebuf')
         else if m_is_replay_active s
         then (let s1 = (if m_expected_responses s = 0 then trx_replay_next_stmt env s else s)
               in if \<not> trx_empty (m_replayed_trx s1) then (None, s1)
                  else clientReply_route_stored env s1 backend processed_sescmd (Some writebuf))
         else if transaction_replay (m_config s) \<and> session_trx_is_ending s
         then clientReply_route_stored env
                (s\<lparr>m_trx := trx_close (m_trx s), m_can_replay_trx := True\<rparr>)
                backend processed_sescmd (Some writebuf)
         else clientReply_route_stored env s backend processed_sescmd (Some writebuf))"

definition clientReply_complete ::
  "rws_env \<Rightarrow> rws \<Rightarrow> nat \<Rightarrow> gwbuf \<Rightarrow> (gwbuf option \<times> rws) option" where
  "clientReply_complete env s backend writebuf =
     (let s1 = (backend_upd (ack_write env) backend s)
                 \<lparr>m_expected_responses := m_expected_responses s - 1\<rparr>
      in if m_wait_gtid s1 = RETRYING_ON_MASTER
         then (case m_current_query s1 of
                 None \<Rightarrow> None
               | Some buf \<Rightarrow>
                   Some (None,
                         retry_query (buf\<lparr>gw_hint := hint_create_route (gw_hint buf) HINT_ROUTE_TO_MASTER\<rparr>) 0
                           (s1\<lparr>m_wait_gtid := NONE, m_current_query := None\<rparr>)))
         else
          (let s2 = (if causal_reads (m_config s1) then s1\<lparr>m_wait_gtid := NONE\<rparr> else s1)
           in if m_otrx_state s2 = OTRX_ROLLBACK
              then (case start_trx_replay env (s2\<lparr>m_otrx_state := OTRX_INACTIVE\<rparr>) of
                      None \<Rightarrow> None
                    | Some (started, s3) \<Rightarrow> Some (None, s3))
              else Some (clientReply_processed env s2 backend writebuf)))"

definition clientReply ::
  "rws_env \<Rightarrow> rws \<Rightarrow> gwbuf \<Rightarrow> nat \<Rightarrow> reply_info \<Rightarrow> (gwbuf option \<times> rws) option" where
  "clientReply env s writebuf backend reply =
     (case handle_causal_read_reply s writebuf backend of
        None \<Rightarrow> None
      | Some (None, s1) \<Rightarrow> Some (None, s1)
      | Some (Some wb1, s1) \<Rightarrow>
         (case (if err_is_unexpected_error (rep_error reply)
                then erase_last_packet wb1 else Some (Some wb1)) of
            None \<Rightarrow> None
          | Some None \<Rightarrow> Some (None, s1)
          | Some (Some wb2) \<Rightarrow>
             (case (if err_is_rollback (rep_error reply) \<or> is_wsrep_error (rep_error reply)
                    then handle_ignorable_error env s1 backend
                    else Some (False, s1)) of
                None \<Rightarrow> None
              | Some (True, s2) \<Rightarrow> Some (None, s2)
              | Some (False, s2) \<Rightarrow>
                 (let s3 = manage_transactions s2 backend wb2
                  in if rep_is_complete reply
                     then clientReply_complete env s3 backend wb2
                     else Some (clientReply_processed env s3 backend wb2)))))"

subsection \<open>Packets, and a concrete session for the examples\<close>

text \<open>A complete MySQL packet: a four-byte header whose first three bytes give the
  length of the payload that follows.\<close>

definition mysql_packet :: "8 word list \<Rightarrow> bool" where
  "mysql_packet p = (length p \<ge> MYSQL_HEADER_LEN
                     \<and> length p = MYSQL_GET_PAYLOAD_LEN p 0 + MYSQL_HEADER_LEN)"

definition plain_buffer :: "8 word list \<Rightarrow> gwbuf" where
  "plain_buffer bytes = \<lparr>gw_data = bytes, gw_replayed = False, gw_hint = [], gw_reply_ok = False,
                          gw_last_gtid = None\<rparr>"

definition idle_backend :: rw_backend where
  "idle_backend = \<lparr>b_in_use = True, b_has_session_commands = False, b_is_waiting_result = True,
                    b_is_replaying_history = False, b_next_session_command = plain_buffer []\<rparr>"

definition idle_session :: rws where
  "idle_session =
     \<lparr>m_config = \<lparr>transaction_replay = True, trx_max_size = 1024, trx_max_attempts = 5,
                  causal_reads = True, retry_failed_reads = True, delayed_retry = False,
                  delayed_retry_timeout = 10\<rparr>,
      backends = (\<lambda>i. idle_backend),
      m_current_master = Some 0,
      m_target_node = None,
      m_sescmd_count = 1,
      m_sescmd_list = [],
      m_expected_responses = 0,
      m_query_queue = [],
      m_gtid_pos = [],
      m_wait_gtid = NONE,
      m_next_seq = 0,
      m_qc = \<lparr>qc_load_data_state = LOAD_DATA_INACTIVE, qc_large_query = False\<rparr>,
      m_retry_duration = 0,
      m_current_query = None,
      m_trx = empty_trx,
      m_is_replay_active = False,
      m_can_replay_trx = True,
      m_replayed_trx = empty_trx,
      m_interrupted_query = None,
      m_orig_trx = empty_trx,
      m_orig_stmt = None,
      m_num_trx_replays = 0,
      m_otrx_state = OTRX_INACTIVE,
      session_trx_is_active = False,
      session_trx_is_ending = False,
      session_is_load_active = False,
      dispatched = [],
      rws_events = []\<rparr>"

text \<open>An environment for the examples: the digest stands for SHA-1 and is the sequence of
  bytes itself, a routed statement becomes the current query and one more response is
  expected, and the response to a session command is passed on.\<close>

definition simple_env :: rws_env where
  "simple_env =
     \<lparr>sha1 = (\<lambda>bytes. bytes),
      route_single_stmt = (\<lambda>q st. (True, st\<lparr>m_expected_responses := m_expected_responses st + 1,
                                              m_current_query := Some q\<rparr>)),
      update_route_info = (\<lambda>qc target q. qc),
      process_sescmd_response = (\<lambda>backend w st. (Some w, st)),
      ack_write = (\<lambda>b. b\<lparr>b_is_waiting_result := False\<rparr>),
      execute_session_command = (\<lambda>b. (False, b))\<rparr>"

text \<open>Packets: an OK packet with a payload of 7 bytes, an OK packet with a payload of 252
  bytes, a result packet and an error packet (error 1927).\<close>

definition short_ok_packet :: "8 word list" where
  "short_ok_packet = [7, 0, 0, 1, 0, 0, 0, 2, 0, 0, 0]"

definition long_ok_packet :: "8 word list" where
  "long_ok_packet = [0xfc, 0, 0, 1, 0] @ replicate 251 0"

definition row_packet :: "8 word list" where
  "row_packet = [1, 0, 0, 2, 0x2a]"

definition err_packet :: "8 word list" where
  "err_packet = [3, 0, 0, 3, 0xff, 0x87, 0x07]"

text \<open>The reply that carries an error the router did not expect: the connection was
  killed.\<close>

definition killed_reply :: reply_info where
  "killed_reply = \<lparr>rep_error = \<lparr>err_code = 1927, err_sql_state = ''70100'',
                                    err_message = ''Connection was killed'',
                                    err_is_rollback = False, err_is_unexpected_error = True\<rparr>,
                    rep_is_complete = True\<rparr>"

subsection \<open>Views of the session for the invariants\<close>

text \<open>The parts of the session that the functions outside the files at hand are taken to
  leave alone, each where a theorem says so: the transaction record with its replayable
  mark, the queue with the log of dispatched statements, and the number of expected
  responses with that log. \<open>env_preserves\<close> says that neither \<^verbatim>\<open>route_single_stmt\<close> nor
  \<^verbatim>\<open>process_sescmd_response\<close> changes the given view.\<close>

definition trx_record :: "rws \<Rightarrow> bool \<times> trx" where
  "trx_record s = (m_can_replay_trx s, m_trx s)"

definition env_preserves :: "rws_env \<Rightarrow> (rws \<Rightarrow> 'a) \<Rightarrow> bool" where
  "env_preserves env f =
     ((\<forall>q st. f (snd (route_single_stmt env q st)) = f st)
      \<and> (\<forall>b w st. f (snd (process_sescmd_response env b w st)) = f st))"

definition trx_flags :: "rws \<Rightarrow> bool \<times> bool" where
  "trx_flags s = (transaction_replay (m_config s), session_trx_is_ending s)"



text \<open>Statements and sessions for the examples of the transaction replay and of the
  queue: \<open>BEGIN\<close> and three further statements as \<^verbatim>\<open>COM_QUERY\<close> packets, and the reply
  that completes a statement without an error.\<close>

definition stmt_begin :: gwbuf where
  "stmt_begin = plain_buffer [6, 0, 0, 0, 3, 0x42, 0x45, 0x47, 0x49, 0x4e]"

definition stmt_a :: gwbuf where "stmt_a = plain_buffer [2, 0, 0, 0, 3, 0x41]"
definition stmt_b :: gwbuf where "stmt_b = plain_buffer [2, 0, 0, 0, 3, 0x42]"
definition stmt_c :: gwbuf where "stmt_c = plain_buffer [2, 0, 0, 0, 3, 0x43]"

definition ok_reply :: reply_info where
  "ok_reply = \<lparr>rep_error = \<lparr>err_code = 0, err_sql_state = [], err_message = [],
                               err_is_rollback = False, err_is_unexpected_error = False\<rparr>,
                rep_is_complete = True\<rparr>"

text \<open>A session whose first replay attempt has not started yet: the transaction holds
  two statements and a third one was interrupted.\<close>

definition interrupted_session :: rws where
  "interrupted_session =
     idle_session\<lparr>session_trx_is_active := True,
                  m_trx := \<lparr>trx_checksum = \<lparr>sha_ctx = [1, 2, 3], sha_sum = replicate 20 0\<rparr>,
                           trx_log = [stmt_a, stmt_b], trx_size = 12\<rparr>,
                  m_current_query := Some stmt_c\<rparr>"

text \<open>A session in the middle of a replay that is about to be restarted: the snapshot
  holds the original transaction, the current transaction is the partly replayed one.\<close>

definition retrying_session :: rws where
  "retrying_session =
     idle_session\<lparr>session_trx_is_active := True,
                  m_is_replay_active := True,
                  m_num_trx_replays := 1,
                  m_orig_trx := \<lparr>trx_checksum = \<lparr>sha_ctx = [1, 2, 3], sha_sum = replicate 20 0\<rparr>,
                                trx_log = [stmt_a, stmt_b], trx_size = 12\<rparr>,
                  m_orig_stmt := Some stmt_c,
                  m_trx := \<lparr>trx_checksum = \<lparr>sha_ctx = [1], sha_sum = replicate 20 0\<rparr>,
                           trx_log = [stmt_a\<lparr>gw_replayed := True\<rparr>], trx_size = 6\<rparr>,
                  m_replayed_trx := \<lparr>trx_checksum = \<lparr>sha_ctx = [1, 2, 3], sha_sum = [1, 2, 3]\<rparr>,
                                    trx_log = [], trx_size = 12\<rparr>,
                  m_interrupted_query := Some stmt_c\<rparr>"

text \<open>A session at the end of a replay: every statement of the replayed transaction has
  been executed again and the results of the replay, the given bytes, are in the checksum
  of the current transaction. The results before the failure were the bytes 1, 2, 3.\<close>

definition replay_finished :: "8 word list \<Rightarrow> rws" where
  "replay_finished results =
     idle_session\<lparr>session_trx_is_active := True,
                  m_is_replay_active := True,
                  m_num_trx_replays := 1,
                  m_trx := \<lparr>trx_checksum = \<lparr>sha_ctx = results, sha_sum = replicate 20 0\<rparr>,
                           trx_log = [stmt_a\<lparr>gw_replayed := True\<rparr>, stmt_b\<lparr>gw_replayed := True\<rparr>],
                           trx_size = 12\<rparr>,
                  m_replayed_trx := \<lparr>trx_checksum = \<lparr>sha_ctx = [1, 2, 3], sha_sum = [1, 2, 3]\<rparr>,
                                    trx_log = [], trx_size = 12\<rparr>,
                  m_interrupted_query := Some stmt_c\<rparr>"

text \<open>The replay of a transaction whose first statement was interrupted before any
  result arrived: the session was executing \<open>BEGIN\<close> when the master was lost; the
  replay is started, the retried \<open>BEGIN\<close> comes back through \<^verbatim>\<open>routeQuery\<close>, and its OK
  packet arrives.\<close>

definition begin_interrupted :: rws where
  "begin_interrupted =
     idle_session\<lparr>session_trx_is_active := True, m_current_query := Some stmt_begin\<rparr>"

definition begin_replay_started :: rws where
  "begin_replay_started = snd (the (start_trx_replay simple_env begin_interrupted))"

definition begin_replay_routed :: rws where
  "begin_replay_routed =
     snd (routeQuery simple_env begin_replay_started (stmt_begin\<lparr>gw_replayed := True\<rparr>))"

definition begin_replay_done :: "gwbuf option \<times> rws" where
  "begin_replay_done =
     the (clientReply simple_env begin_replay_routed (plain_buffer short_ok_packet) 0 ok_reply)"


text \<open>A session whose transaction record is four bytes below the configured maximum of
  1024 bytes while a statement of six bytes is being executed.\<close>

definition nearly_full_session :: rws where
  "nearly_full_session =
     idle_session\<lparr>session_trx_is_active := True,
                  m_expected_responses := 1,
                  m_trx := \<lparr>trx_checksum = \<lparr>sha_ctx = [1, 2, 3], sha_sum = replicate 20 0\<rparr>,
                           trx_log = [stmt_a], trx_size = 1020\<rparr>,
                  m_current_query := Some stmt_b\<rparr>"

text \<open>The same interruption of \<open>BEGIN\<close> in a session that is configured for at most one
  replay attempt: the replay is started, the retried \<open>BEGIN\<close> is routed and answered, so
  that the replay is over and the transaction goes on.\<close>

definition capped_begin_interrupted :: rws where
  "capped_begin_interrupted =
     begin_interrupted\<lparr>m_config := (m_config begin_interrupted)\<lparr>trx_max_attempts := 1\<rparr>\<rparr>"

definition capped_replay_started :: rws where
  "capped_replay_started = snd (the (start_trx_replay simple_env capped_begin_interrupted))"

definition capped_replay_routed :: rws where
  "capped_replay_routed =
     snd (routeQuery simple_env capped_replay_started (stmt_begin\<lparr>gw_replayed := True\<rparr>))"

definition capped_replay_done :: rws where
  "capped_replay_done =
     snd (the (clientReply simple_env capped_replay_routed (plain_buffer short_ok_packet) 0
                 ok_reply))"

text \<open>A session in the middle of the replay of an interrupted \<open>BEGIN\<close> that is about to
  be restarted: the snapshot holds an empty transaction and \<open>BEGIN\<close>; the first packet of
  the result of the retried \<open>BEGIN\<close> has been recorded.\<close>

definition begin_retrying_session :: rws where
  "begin_retrying_session =
     idle_session\<lparr>session_trx_is_active := True,
                  m_is_replay_active := True,
                  m_num_trx_replays := 1,
                  m_orig_trx := empty_trx,
                  m_orig_stmt := Some stmt_begin,
                  m_trx := \<lparr>trx_checksum = \<lparr>sha_ctx = [7, 0, 0, 1], sha_sum = replicate 20 0\<rparr>,
                           trx_log = [stmt_begin\<lparr>gw_replayed := True\<rparr>], trx_size = 10\<rparr>,
                  m_replayed_trx := empty_trx\<lparr>trx_checksum := \<lparr>sha_ctx = [], sha_sum = []\<rparr>\<rparr>\<rparr>"


subsection \<open>The transaction state that the protocol tracks\<close>

text \<open>
  \<^verbatim>\<open>track_transaction_state\<close> of the client protocol, which \<^verbatim>\<open>route_by_statement\<close> calls
  for every packet before it hands the packet to the router. The states of the session
  (\<^verbatim>\<open>SESSION_TRX_INACTIVE\<close>, \<^verbatim>\<open>SESSION_TRX_ACTIVE\<close>, \<^verbatim>\<open>SESSION_TRX_ENDING_BIT\<close> and the others)
  are declared outside the files at hand; a state is kept as the two flags that
  \<^verbatim>\<open>session_trx_is_active\<close> and \<^verbatim>\<open>session_trx_is_ending\<close> read: the inactive state clears
  both, the active states (read-only and read-write among them) set the first and clear
  the second, and the ending bit is added to the state as it is. The arguments are
  whether the packet is a \<^verbatim>\<open>COM_QUERY\<close> and the type mask of the query classifier, of
  which the function reads the bits below. The autocommit mode is not part of the model.
\<close>

record trx_type_mask =
  type_begin_trx :: bool
  type_disable_autocommit :: bool
  type_commit :: bool
  type_rollback :: bool

definition track_transaction_state :: "bool \<Rightarrow> trx_type_mask \<Rightarrow> rws \<Rightarrow> rws" where
  "track_transaction_state com_query type s =
     (let s1 = (if session_trx_is_ending s
                then s\<lparr>session_trx_is_active := False, session_trx_is_ending := False\<rparr>
                else s)
      in if com_query
         then (if type_begin_trx type
               then (if type_disable_autocommit type
                     then s1\<lparr>session_trx_is_active := False, session_trx_is_ending := False\<rparr>
                     else s1\<lparr>session_trx_is_active := True, session_trx_is_ending := False\<rparr>)
               else if type_commit type \<or> type_rollback type
               then s1\<lparr>session_trx_is_ending := True\<rparr>
               else s1)
         else s1)"

text \<open>The two steps of \<^verbatim>\<open>route_by_statement\<close> for a \<^verbatim>\<open>COM_QUERY\<close> packet of a session
  whose router is the read/write split router: the transaction state is tracked, then
  the packet is routed. The protocol tracks the state when the router asks for it
  (\<^verbatim>\<open>RCAP_TYPE_TRANSACTION_TRACKING\<close>), the service does not take the state from the
  server (\<^verbatim>\<open>session_track_trx_state\<close>) and no \<^verbatim>\<open>LOAD DATA LOCAL INFILE\<close> is active; this
  is the case here.\<close>

definition route_tracked_statement ::
  "rws_env \<Rightarrow> trx_type_mask \<Rightarrow> rws \<Rightarrow> gwbuf \<Rightarrow> int \<times> rws" where
  "route_tracked_statement env type s packetbuf =
     routeQuery env (track_transaction_state True type s) packetbuf"

text \<open>The client of the session with the nearly full transaction record sends \<open>COMMIT\<close>
  before the reply to the statement in execution has arrived; then that reply arrives,
  an OK packet that completes it.\<close>

definition stmt_commit :: gwbuf where
  "stmt_commit = plain_buffer [7, 0, 0, 0, 3, 0x43, 0x4f, 0x4d, 0x4d, 0x49, 0x54]"

definition commit_type :: trx_type_mask where
  "commit_type = \<lparr>type_begin_trx = False, type_disable_autocommit = False,
                   type_commit = True, type_rollback = False\<rparr>"

definition pipelined_commit_read :: rws where
  "pipelined_commit_read =
     snd (route_tracked_statement simple_env commit_type nearly_full_session stmt_commit)"

definition pipelined_commit_reply :: "gwbuf option \<times> rws" where
  "pipelined_commit_reply =
     the (clientReply simple_env pipelined_commit_read (plain_buffer short_ok_packet) 0 ok_reply)"

text \<open>The master is lost after that reply.\<close>

definition pipelined_commit_replay :: "(bool \<times> rws) option" where
  "pipelined_commit_replay = start_trx_replay simple_env (snd pipelined_commit_reply)"

section \<open>Client protocol: parsing a KILL statement\<close>




















subsection \<open>The KILL statement as the specification words it\<close>


















section \<open>Theorems\<close>

subsection \<open>Version string\<close>

lemma first_char_10: "take 3 v = ''10.'' \<Longrightarrow> first_char v \<noteq> CHR ''5''"
  by (cases v) (auto simp: first_char_def)

text \<open>
  Claim C8. Whenever the version string that the service advertises (the configured one,
  or else the one of the reachable server with the smallest version, or else the default)
  starts with \<open>10.\<close>, \<^verbatim>\<open>get_version_string\<close> returns \<open>5.5.5-\<close> followed by that string.
  In particular this holds for a configured version string starting with \<open>10.\<close>.
\<close>

theorem get_version_string_prefix_10:
  "(take 3 (advertised_version d service) = ''10.'' \<longrightarrow>
      get_version_string d service = ''5.5.5-'' @ advertised_version d service)
   \<and> (take 3 (config_version_string service) = ''10.'' \<longrightarrow>
      get_version_string d service = ''5.5.5-'' @ config_version_string service)"
proof (intro conjI impI)
  assume a: "take 3 (advertised_version d service) = ''10.''"
  show "get_version_string d service = ''5.5.5-'' @ advertised_version d service"
    using first_char_10 [OF a] by (simp add: get_version_string_def Let_def)
next
  assume c: "take 3 (config_version_string service) = ''10.''"
  then have ne: "config_version_string service \<noteq> []" by auto
  then have adv: "advertised_version d service = config_version_string service"
    by (simp add: advertised_version_def)
  show "get_version_string d service = ''5.5.5-'' @ config_version_string service"
    using first_char_10 [OF c] adv by (simp add: get_version_string_def Let_def)
qed

theorem get_version_string_prefix_10_witness:
  "take 3 (advertised_version ''5.5.5-10.2.12 2.5.0-maxscale''
       \<lparr>config_version_string = [],
        reachable_servers = [\<lparr>version_total = 100512, server_version_string = ''10.5.12-MariaDB''\<rparr>,
                             \<lparr>version_total = 100327, server_version_string = ''10.3.27-MariaDB''\<rparr>]\<rparr>)
     = ''10.''
   \<and> get_version_string ''5.5.5-10.2.12 2.5.0-maxscale''
       \<lparr>config_version_string = [],
        reachable_servers = [\<lparr>version_total = 100512, server_version_string = ''10.5.12-MariaDB''\<rparr>,
                             \<lparr>version_total = 100327, server_version_string = ''10.3.27-MariaDB''\<rparr>]\<rparr>
     = ''5.5.5-10.3.27-MariaDB''"
  using get_version_string_prefix_10 [of "''5.5.5-10.2.12 2.5.0-maxscale''"
       "\<lparr>config_version_string = [],
        reachable_servers = [\<lparr>version_total = 100512, server_version_string = ''10.5.12-MariaDB''\<rparr>,
                             \<lparr>version_total = 100327, server_version_string = ''10.3.27-MariaDB''\<rparr>]\<rparr>"]
  by (simp add: advertised_version_def UINT64_MAX_def)

subsection \<open>Authentication with one reload of the users\<close>

lemma authenticate_first_success:
  assumes "ses_user (aw_client_data w) \<noteq> []" "correct_authenticator (aw_client_data w)"
    and "validate_mysql_user env (user_cache (aw_service w)) (aw_client_data w) (ae_scramble env)
           = MXS_AUTH_SUCCEEDED"
  shows "fst (authenticate env w) = MXS_AUTH_SUCCEEDED
         \<and> auth_calls (snd (authenticate env w))
             = auth_calls w @ [Call_validate_mysql_user (aw_client_data w) (ae_scramble env)]"
  using assms by (simp add: authenticate_def call_validate_def free_auth_token_def Let_def)

lemma authenticate_refresh_ok:
  assumes "ses_user (aw_client_data w) \<noteq> []" "correct_authenticator (aw_client_data w)"
    and "validate_mysql_user env (user_cache (aw_service w)) (aw_client_data w) (ae_scramble env)
           \<noteq> MXS_AUTH_SUCCEEDED"
    and "service_refresh_users (ae_clock env) (aw_service w) = (0, svc')"
  shows "fst (authenticate env w)
           = validate_mysql_user env (user_cache svc') (aw_client_data w) (ae_scramble env)
         \<and> auth_calls (snd (authenticate env w))
             = auth_calls w @ [Call_validate_mysql_user (aw_client_data w) (ae_scramble env),
                               Call_service_refresh_users,
                               Call_validate_mysql_user (aw_client_data w) (ae_scramble env)]"
  using assms
  by (simp add: authenticate_def call_validate_def call_refresh_def free_auth_token_def Let_def)

lemma authenticate_refresh_failed:
  assumes "ses_user (aw_client_data w) \<noteq> []" "correct_authenticator (aw_client_data w)"
    and "validate_mysql_user env (user_cache (aw_service w)) (aw_client_data w) (ae_scramble env)
           \<noteq> MXS_AUTH_SUCCEEDED"
    and "service_refresh_users (ae_clock env) (aw_service w) = (rc, svc')" "rc \<noteq> 0"
  shows "fst (authenticate env w)
           = validate_mysql_user env (user_cache (aw_service w)) (aw_client_data w) (ae_scramble env)
         \<and> auth_calls (snd (authenticate env w))
             = auth_calls w @ [Call_validate_mysql_user (aw_client_data w) (ae_scramble env),
                               Call_service_refresh_users]"
  using assms
  by (simp add: authenticate_def call_validate_def call_refresh_def free_auth_token_def Let_def)

text \<open>
  Claim C6, as the code has it. When the client names a user and uses the right
  authenticator, \<^verbatim>\<open>authenticate\<close> calls \<^verbatim>\<open>validate_mysql_user\<close> once; if that succeeds
  the result is success and nothing else is called. If it does not succeed,
  \<^verbatim>\<open>service_refresh_users\<close> is called exactly once; when that call returns 0 the
  validation is repeated exactly once with the same session data and scramble, against
  the cache the refresh left, and its status is the result; when the refresh returns
  another value there is no second validation and the status of the first one is the
  result.
\<close>

theorem authenticate_reload_once:
  assumes "ses_user (aw_client_data w) \<noteq> []" and "correct_authenticator (aw_client_data w)"
  shows "(let v = Call_validate_mysql_user (aw_client_data w) (ae_scramble env);
              r1 = validate_mysql_user env (user_cache (aw_service w)) (aw_client_data w)
                     (ae_scramble env);
              (rc, svc') = service_refresh_users (ae_clock env) (aw_service w);
              r2 = validate_mysql_user env (user_cache svc') (aw_client_data w) (ae_scramble env);
              (auth_ret, w') = authenticate env w
          in if r1 = MXS_AUTH_SUCCEEDED
             then auth_ret = MXS_AUTH_SUCCEEDED \<and> auth_calls w' = auth_calls w @ [v]
             else if rc = 0
             then auth_ret = r2
                  \<and> auth_calls w' = auth_calls w @ [v, Call_service_refresh_users, v]
             else auth_ret = r1
                  \<and> auth_calls w' = auth_calls w @ [v, Call_service_refresh_users])"
proof -
  obtain rc svc' where r: "service_refresh_users (ae_clock env) (aw_service w) = (rc, svc')"
    by (cases "service_refresh_users (ae_clock env) (aw_service w)")
  obtain auth_ret w' where a: "authenticate env w = (auth_ret, w')"
    by (cases "authenticate env w")
  show ?thesis
    using authenticate_first_success [OF assms, of env]
      authenticate_refresh_ok [OF assms, of env svc']
      authenticate_refresh_failed [OF assms, of env rc svc'] r a
    by (auto simp: Let_def)
qed

theorem authenticate_reload_once_witness:
  "ses_user (aw_client_data (auth_world_of (\<lambda>c. (MXS_AUTH_LOADUSERS_OK, [''alice'', ''bob''])))) \<noteq> []
   \<and> correct_authenticator
        (aw_client_data (auth_world_of (\<lambda>c. (MXS_AUTH_LOADUSERS_OK, [''alice'', ''bob'']))))
   \<and> fst (authenticate known_users_env
             (auth_world_of (\<lambda>c. (MXS_AUTH_LOADUSERS_OK, [''alice'', ''bob''])))) = MXS_AUTH_SUCCEEDED
   \<and> auth_calls (snd (authenticate known_users_env
             (auth_world_of (\<lambda>c. (MXS_AUTH_LOADUSERS_OK, [''alice'', ''bob''])))))
      = [Call_validate_mysql_user bob_session [1, 2, 3], Call_service_refresh_users,
         Call_validate_mysql_user bob_session [1, 2, 3]]"
proof -
  let ?w = "auth_world_of (\<lambda>c. (MXS_AUTH_LOADUSERS_OK, [''alice'', ''bob'']))"
  have h1: "ses_user (aw_client_data ?w) \<noteq> []"
    by (simp add: auth_world_of_def bob_session_def)
  have h2: "correct_authenticator (aw_client_data ?w)"
    by (simp add: auth_world_of_def bob_session_def)
  have r: "service_refresh_users (ae_clock known_users_env) (aw_service ?w)
             = (0, (aw_service ?w)\<lparr>rate_limits := (rate_limits (aw_service ?w))
                                     (0 := \<lparr>rl_last = 1000, rl_warned = False\<rparr>),
                                   user_cache := [''alice'', ''bob'']\<rparr>)"
    by (simp add: service_refresh_users_def refresh_users_def known_users_env_def
        auth_world_of_def Let_def)
  show ?thesis
    using authenticate_reload_once [OF h1 h2, of known_users_env] h1 h2
    by (simp add: r Let_def split_beta) (simp add: known_users_env_def auth_world_of_def
        bob_session_def MXS_AUTH_SUCCEEDED_def)
qed

text \<open>
  The claim as the specification words it fails when the refresh does not return 0: the
  single listener reports \<^verbatim>\<open>MXS_AUTH_LOADUSERS_ERROR\<close>, \<^verbatim>\<open>service_refresh_users\<close> returns
  1, and the failure is reported after one validation only.
\<close>

theorem authenticate_no_retry_counterexample:
  "fst (authenticate known_users_env (auth_world_of (\<lambda>c. (MXS_AUTH_LOADUSERS_ERROR, c))))
     = MXS_AUTH_FAILED
   \<and> auth_calls (snd (authenticate known_users_env
                        (auth_world_of (\<lambda>c. (MXS_AUTH_LOADUSERS_ERROR, c)))))
     = [Call_validate_mysql_user bob_session [1, 2, 3], Call_service_refresh_users]"
  by (simp add: authenticate_def call_validate_def call_refresh_def free_auth_token_def Let_def
      known_users_env_def auth_world_of_def bob_session_def service_refresh_users_def
      refresh_users_def MXS_AUTH_SUCCEEDED_def MXS_AUTH_FAILED_def)

subsection \<open>COM\_CHANGE\_USER\<close>

text \<open>
  Claim C7 at a concrete exchange. The client sends \<^verbatim>\<open>COM_CHANGE_USER\<close> and then its
  response to the authentication switch request; the authenticator rejects the response.
  The first packet is withheld and the switch request is sent, as the claim says. After
  the failed re-authentication, however, \<^verbatim>\<open>handle_change_user\<close> still returns true, the
  stored \<^verbatim>\<open>COM_CHANGE_USER\<close> is handed to the router and \<^verbatim>\<open>route_by_statement\<close> returns 1:
  the error branch that would end the session is not taken.
\<close>

theorem change_user_routed_after_failed_reauthentication:
  "map_option (\<lambda>(rc, st). (rc, cp_events st))
     (route_by_statement rejecting_env fresh_client 1 [change_user_packet])
     = Some (1, [Send_auth_switch_request])
   \<and> map_option (\<lambda>(rc, st). (rc, cp_events st))
     (route_by_statement rejecting_env fresh_client 1 [change_user_packet, auth_switch_response])
     = Some (1, [Send_auth_switch_request, Handle_authentication_errors 1 3,
                 Route_query change_user_packet])"
  by (simp add: rejecting_env_def fresh_client_def change_user_packet_def
      auth_switch_response_def handle_change_user_def reauthenticate_client_def cp_emit_def
      MXS_COM_CHANGE_USER_def MYSQL_HEADER_LEN_def MYSQL_USER_MAXLEN_def
      MYSQL_DATABASE_MAXLEN_def MXS_AUTH_SUCCEEDED_def Let_def)

subsection \<open>Causal reads: discarding the result of the GTID wait\<close>

text \<open>
  Claim C3 at two concrete replies, both arriving while the session waits for the header
  of the \<^verbatim>\<open>MASTER_GTID_WAIT\<close> result. With an OK packet of 11 bytes the packet is
  discarded and the result packet behind it is renumbered to 1. With an OK packet of 256
  bytes (a payload of 252 bytes) the length kept in the \<^verbatim>\<open>uint8_t packet_len\<close> is 0,
  nothing is consumed, and the whole buffer, OK packet first, goes on to the client.
\<close>

theorem long_ok_packet_not_discarded:
  "map_option (map_option gw_data \<circ> fst)
     (handle_causal_read_reply (idle_session\<lparr>m_wait_gtid := WAITING_FOR_HEADER\<rparr>)
        (plain_buffer (short_ok_packet @ row_packet)) 1)
     = Some (Some [1, 0, 0, 1, 0x2a])
   \<and> map_option (map_option gw_data \<circ> fst)
     (handle_causal_read_reply (idle_session\<lparr>m_wait_gtid := WAITING_FOR_HEADER\<rparr>)
        (plain_buffer (long_ok_packet @ row_packet)) 1)
     = Some (Some (long_ok_packet @ row_packet))"
  by (simp add: handle_causal_read_reply_def idle_session_def plain_buffer_def
      short_ok_packet_def long_ok_packet_def row_packet_def discard_master_wait_gtid_result_def
      MYSQL_HEADER_LEN_def MYSQL_REPLY_OK_def MYSQL_GET_PAYLOAD_LEN_def gwbuf_consume_def
      MYSQL_SEQ_OFFSET_def list_update_append correct_packet_sequence.simps)

subsection \<open>Erasing the error packet of an unexpected error\<close>

lemma payload_len_append:
  "length p \<ge> 3 \<Longrightarrow> MYSQL_GET_PAYLOAD_LEN (pre @ p @ rest) (length pre) = MYSQL_GET_PAYLOAD_LEN p 0"
proof -
  assume l: "length p \<ge> 3"
  have "\<And>i. i < 3 \<Longrightarrow> (pre @ p @ rest) ! (length pre + i) = p ! i"
    using l by (simp add: nth_append)
  from this [of 0] this [of 1] this [of 2] show ?thesis
    by (simp add: MYSQL_GET_PAYLOAD_LEN_def numeral_2_eq_2)
qed

lemma skip_packet_at:
  assumes "mysql_packet p"
  shows "skip_packet (pre @ p @ rest) (length pre) = Some (length pre + length p)"
proof -
  from assms have l: "length p \<ge> 4" "length p = MYSQL_GET_PAYLOAD_LEN p 0 + 4"
    by (simp_all add: mysql_packet_def MYSQL_HEADER_LEN_def)
  then have "MYSQL_GET_PAYLOAD_LEN (pre @ p @ rest) (length pre) = length p - 4"
    using payload_len_append [of p pre rest] by simp
  with l show ?thesis by (simp add: skip_packet_def Let_def)
qed

lemma mysql_packet_nonempty: "mysql_packet p \<Longrightarrow> p \<noteq> []"
  by (auto simp: mysql_packet_def MYSQL_HEADER_LEN_def)

lemma concat_packets_nonempty:
  "ps \<noteq> [] \<Longrightarrow> \<forall>p\<in>set ps. mysql_packet p \<Longrightarrow> concat ps \<noteq> []"
  by (cases ps) (auto dest: mysql_packet_nonempty)

lemma last_packet_start_concat:
  "ps \<noteq> [] \<Longrightarrow> \<forall>p\<in>set ps. mysql_packet p \<Longrightarrow>
     last_packet_start (pre @ concat ps) (length pre) = Some (length pre + length (concat (butlast ps)))"
proof (induction ps arbitrary: pre)
  case Nil
  then show ?case by simp
next
  case (Cons p ps)
  then have p: "mysql_packet p" by simp
  have sk: "skip_packet (pre @ p @ concat ps) (length pre) = Some (length pre + length p)"
    by (rule skip_packet_at [OF p])
  show ?case
  proof (cases "ps = []")
    case True
    with sk show ?thesis by (simp add: last_packet_start.simps [of "pre @ p"])
  next
    case False
    have ne: "concat ps \<noteq> []" using concat_packets_nonempty [OF False] Cons.prems by auto
    have ih: "last_packet_start ((pre @ p) @ concat ps) (length (pre @ p))
                = Some (length (pre @ p) + length (concat (butlast ps)))"
      using Cons.IH [OF False, of "pre @ p"] Cons.prems by simp
    have "last_packet_start (pre @ p @ concat ps) (length pre)
            = last_packet_start (pre @ p @ concat ps) (length pre + length p)"
      using sk ne by (subst last_packet_start.simps) simp
    with ih False show ?thesis by simp
  qed
qed

lemma erase_last_packet_concat:
  assumes "ps \<noteq> []" "\<forall>p\<in>set ps. mysql_packet p" "gw_data wb = concat ps"
  shows "erase_last_packet wb
           = Some (if butlast ps = [] then None else Some (wb\<lparr>gw_data := concat (butlast ps)\<rparr>))"
proof -
  have st: "last_packet_start (gw_data wb) 0 = Some (length (concat (butlast ps)))"
    using last_packet_start_concat [OF assms(1,2), of "[]"] assms(3) by simp
  have tk: "take (length (concat (butlast ps))) (concat ps) = concat (butlast ps)"
  proof -
    have "concat ps = concat (butlast ps) @ last ps"
      using assms(1) by (metis append_butlast_last_id concat.simps concat_append append_Nil2)
    then show ?thesis by simp
  qed
  have z: "length (concat (butlast ps)) = 0 \<longleftrightarrow> butlast ps = []"
  proof
    assume "length (concat (butlast ps)) = 0"
    then have c: "concat (butlast ps) = []" by simp
    show "butlast ps = []"
    proof (rule ccontr)
      assume n: "butlast ps \<noteq> []"
      have "\<forall>p\<in>set (butlast ps). mysql_packet p" using assms(2) by (meson in_set_butlastD)
      from concat_packets_nonempty [OF n this] c show False by simp
    qed
  qed simp
  show ?thesis using st tk z assms(3) by (simp add: erase_last_packet_def)
qed


lemma clientReply_route_stored_fst: "fst (clientReply_route_stored env s b p w) = w"
  by (simp add: clientReply_route_stored_def Let_def split: prod.splits)

lemma clientReply_processed_fst:
  assumes "\<forall>b w st. fst (process_sescmd_response env b w st) = None
                    \<or> fst (process_sescmd_response env b w st) = Some w"
  shows "fst (clientReply_processed env s b w) = None \<or> fst (clientReply_processed env s b w) = Some w"
proof (cases "b_has_session_commands (backends s b)")
  case True
  obtain w' s1 where p: "process_sescmd_response env b w s = (w', s1)"
    by (cases "process_sescmd_response env b w s")
  with assms [rule_format, of b w s] have "w' = None \<or> w' = Some w" by simp
  with True p show ?thesis
    by (auto simp: clientReply_processed_def clientReply_route_stored_fst)
next
  case False
  then show ?thesis
    by (simp add: clientReply_processed_def clientReply_route_stored_fst Let_def)
qed

lemma clientReply_complete_fst:
  assumes "\<forall>b w st. fst (process_sescmd_response env b w st) = None
                    \<or> fst (process_sescmd_response env b w st) = Some w"
    and "clientReply_complete env s b w = Some (fwd, s')"
  shows "fwd = None \<or> fwd = Some w"
  using assms(2) clientReply_processed_fst [OF assms(1), of _ b w]
  by (auto simp: clientReply_complete_def Let_def split: if_splits option.splits)
     (metis fst_conv)+


text \<open>
  Claim C10. Let the reply carry an error that is classified as unexpected, and let the
  buffer that \<^verbatim>\<open>clientReply\<close> has after the causal-read handling be a sequence of complete
  packets. Then \<^verbatim>\<open>erase_last_packet\<close> removes exactly the last packet (and yields
  \<^verbatim>\<open>NULL\<close> when it was the only one); if it was the only one, \<^verbatim>\<open>clientReply\<close> returns
  at once and forwards nothing; and whatever \<^verbatim>\<open>clientReply\<close> forwards to the client is the
  buffer without its last packet. The handling of session command responses, which is
  not in the files at hand, is taken to pass a response on or to drop it.
\<close>

theorem clientReply_hides_unexpected_error:
  assumes "err_is_unexpected_error (rep_error reply)"
    and "handle_causal_read_reply s writebuf backend = Some (Some wb1, s1)"
    and "gw_data wb1 = concat ps" and "ps \<noteq> []" and "\<forall>p\<in>set ps. mysql_packet p"
    and "\<forall>b w st. fst (process_sescmd_response env b w st) = None
                    \<or> fst (process_sescmd_response env b w st) = Some w"
  shows "erase_last_packet wb1
           = Some (if butlast ps = [] then None else Some (wb1\<lparr>gw_data := concat (butlast ps)\<rparr>))
         \<and> (butlast ps = [] \<longrightarrow> clientReply env s writebuf backend reply = Some (None, s1))
         \<and> (\<forall>fwd s'. clientReply env s writebuf backend reply = Some (Some fwd, s')
               \<longrightarrow> fwd = wb1\<lparr>gw_data := concat (butlast ps)\<rparr>)"
proof -
  let ?wb2 = "wb1\<lparr>gw_data := concat (butlast ps)\<rparr>"
  have er: "erase_last_packet wb1 = Some (if butlast ps = [] then None else Some ?wb2)"
    by (rule erase_last_packet_concat [OF assms(4,5,3)])
  have single: "clientReply env s writebuf backend reply = Some (None, s1)" if "butlast ps = []"
    using that er assms(1,2) by (simp add: clientReply_def)
  have multi: "fwd = ?wb2" if c: "clientReply env s writebuf backend reply = Some (Some fwd, s')"
    for fwd s'
  proof (cases "butlast ps = []")
    case True
    with single c show ?thesis by simp
  next
    case False
    obtain r where r: "(if err_is_rollback (rep_error reply) \<or> is_wsrep_error (rep_error reply)
                        then handle_ignorable_error env s1 backend else Some (False, s1)) = r"
      by simp
    show ?thesis
    proof (cases r)
      case None
      with c r er False assms(1,2) show ?thesis by (simp add: clientReply_def)
    next
      case (Some okst)
      obtain ok s2 where okst: "okst = (ok, s2)" by (cases okst)
      show ?thesis
      proof (cases ok)
        case True
        with c r er False assms(1,2) Some okst show ?thesis by (simp add: clientReply_def)
      next
        case nok: False
        let ?s3 = "manage_transactions s2 backend ?wb2"
        show ?thesis
        proof (cases "rep_is_complete reply")
          case True
          with c r er False assms(1,2) Some okst nok
          have "clientReply_complete env ?s3 backend ?wb2 = Some (Some fwd, s')"
            by (simp add: clientReply_def Let_def)
          from clientReply_complete_fst [OF assms(6) this] show ?thesis by simp
        next
          case nc: False
          with c r er False assms(1,2) Some okst nok
          have "clientReply_processed env ?s3 backend ?wb2 = (Some fwd, s')"
            by (simp add: clientReply_def Let_def)
          with clientReply_processed_fst [OF assms(6), of ?s3 backend ?wb2] show ?thesis by simp
        qed
      qed
    qed
  qed
  from er single multi show ?thesis by blast
qed

theorem clientReply_hides_unexpected_error_witness:
  "err_is_unexpected_error (rep_error killed_reply)
   \<and> mysql_packet row_packet \<and> mysql_packet err_packet
   \<and> (\<forall>b w st. fst (process_sescmd_response simple_env b w st) = None
                 \<or> fst (process_sescmd_response simple_env b w st) = Some w)
   \<and> map_option fst (clientReply simple_env (idle_session\<lparr>m_expected_responses := 1\<rparr>)
                        (plain_buffer (row_packet @ err_packet)) 2 killed_reply)
       = Some (Some (plain_buffer row_packet))"
proof -
  let ?s = "idle_session\<lparr>m_expected_responses := 1\<rparr>"
  let ?wb = "plain_buffer (row_packet @ err_packet)"
  have h1: "err_is_unexpected_error (rep_error killed_reply)" by (simp add: killed_reply_def)
  have h2: "handle_causal_read_reply ?s ?wb 2 = Some (Some ?wb, ?s)"
    by (simp add: handle_causal_read_reply_def idle_session_def plain_buffer_def)
  have h3: "gw_data ?wb = concat [row_packet, err_packet]" by (simp add: plain_buffer_def)
  have h4: "[row_packet, err_packet] \<noteq> []" by simp
  have h5: "\<forall>p\<in>set [row_packet, err_packet]. mysql_packet p"
    by (simp add: mysql_packet_def row_packet_def err_packet_def MYSQL_HEADER_LEN_def
        MYSQL_GET_PAYLOAD_LEN_def)
  have h6: "\<forall>b w st. fst (process_sescmd_response simple_env b w st) = None
                     \<or> fst (process_sescmd_response simple_env b w st) = Some w"
    by (simp add: simple_env_def)
  have e: "erase_last_packet ?wb = Some (Some (plain_buffer row_packet))"
    using erase_last_packet_concat [OF h4 h5 h3] by (simp add: plain_buffer_def)
  have ex: "\<exists>fwd s'. clientReply simple_env ?s ?wb 2 killed_reply = Some (Some fwd, s')"
    by (simp add: clientReply_def killed_reply_def e [unfolded plain_buffer_def]
        handle_causal_read_reply_def plain_buffer_def
        is_wsrep_error_def clientReply_complete_def clientReply_processed_def
        clientReply_route_stored_def manage_transactions_def backend_upd_def simple_env_def
        idle_session_def idle_backend_def trx_empty_def empty_trx_def Let_def)
  then obtain fwd s' where c: "clientReply simple_env ?s ?wb 2 killed_reply = Some (Some fwd, s')"
    by blast
  from clientReply_hides_unexpected_error [OF h1 h2 h3 h4 h5 h6] c
  have "fwd = ?wb\<lparr>gw_data := concat (butlast [row_packet, err_packet])\<rparr>" by blast
  then have "fwd = plain_buffer row_packet" by (simp add: plain_buffer_def)
  with c h1 h5 h6 show ?thesis by simp
qed

subsection \<open>What a reply leaves unchanged\<close>

lemma trx_record_upd [simp]:
  "trx_record (s\<lparr>m_query_queue := a\<rparr>) = trx_record s"
  "trx_record (s\<lparr>dispatched := d\<rparr>) = trx_record s"
  "trx_record (s\<lparr>m_qc := qc\<rparr>) = trx_record s"
  "trx_record (s\<lparr>rws_events := e\<rparr>) = trx_record s"
  "trx_record (s\<lparr>m_retry_duration := r\<rparr>) = trx_record s"
  "trx_record (s\<lparr>m_is_replay_active := ra\<rparr>) = trx_record s"
  "trx_record (s\<lparr>m_num_trx_replays := n\<rparr>) = trx_record s"
  "trx_record (s\<lparr>m_replayed_trx := t\<rparr>) = trx_record s"
  "trx_record (s\<lparr>m_interrupted_query := i\<rparr>) = trx_record s"
  "trx_record (s\<lparr>m_current_query := c\<rparr>) = trx_record s"
  "trx_record (s\<lparr>m_expected_responses := x\<rparr>) = trx_record s"
  "trx_record (s\<lparr>backends := bs\<rparr>) = trx_record s"
  "trx_record (s\<lparr>m_wait_gtid := wg\<rparr>) = trx_record s"
  "trx_record (s\<lparr>m_next_seq := ns\<rparr>) = trx_record s"
  "trx_record (s\<lparr>m_gtid_pos := gp\<rparr>) = trx_record s"
  "trx_record (s\<lparr>m_sescmd_list := sl\<rparr>) = trx_record s"
  "trx_record (s\<lparr>m_sescmd_count := sc\<rparr>) = trx_record s"
  "trx_record (s\<lparr>m_otrx_state := os\<rparr>) = trx_record s"
  by (simp_all add: trx_record_def)

lemma routeQuery_trx_record:
  assumes "env_preserves env trx_record"
  shows "trx_record (snd (routeQuery env s q)) = trx_record s"
proof -
  have rs: "\<And>q st. trx_record (snd (route_single_stmt env q st)) = trx_record st"
    using assms by (simp add: env_preserves_def)
  show ?thesis by (simp add: routeQuery_def Let_def rs split_beta)
qed

lemma route_stored_loop_trx_record:
  assumes "env_preserves env trx_record"
  shows "trx_record (snd (route_stored_loop env rval s qs)) = trx_record s"
proof (induction qs arbitrary: rval s)
  case Nil
  then show ?case by simp
next
  case (Cons q qs)
  show ?case
  proof (cases q)
    case None
    with Cons show ?thesis by simp
  next
    case (Some query)
    obtain rc s1 where r: "routeQuery env (s\<lparr>m_query_queue := []\<rparr>) query = (rc, s1)"
      by (cases "routeQuery env (s\<lparr>m_query_queue := []\<rparr>) query")
    have k: "trx_record s1 = trx_record s"
      using routeQuery_trx_record [OF assms, of "s\<lparr>m_query_queue := []\<rparr>" query] r by simp
    show ?thesis
      using Some r k Cons.IH by (simp add: Let_def split: list.splits)
  qed
qed

lemma route_stored_query_trx_record:
  "env_preserves env trx_record \<Longrightarrow> trx_record (snd (route_stored_query env s)) = trx_record s"
  by (simp add: route_stored_query_def route_stored_loop_trx_record)

lemma trx_replay_next_stmt_trx_record:
  "env_preserves env trx_record \<Longrightarrow> trx_record (trx_replay_next_stmt env s) = trx_record s"
  by (simp add: trx_replay_next_stmt_def Let_def retry_query_def terminate_def
      route_stored_query_trx_record split: list.splits option.splits)

lemma start_trx_replay_not_replayable:
  "\<not> m_can_replay_trx s \<Longrightarrow> start_trx_replay env s = Some (False, s)"
  by (simp add: start_trx_replay_def)

lemma retry_master_query_trx_record:
  "retry_master_query s b = Some (ok, s') \<Longrightarrow>
     trx_record s' = trx_record s \<and> trx_flags s' = trx_flags s"
  by (auto simp: retry_master_query_def retry_query_def trx_flags_def
      split: if_splits list.splits option.splits)

lemma handle_ignorable_error_trx_record:
  assumes "\<not> m_can_replay_trx s" and "handle_ignorable_error env s b = Some (ok, s')"
  shows "trx_record s' = trx_record s \<and> trx_flags s' = trx_flags s"
proof -
  obtain ok1 s1 where
    inner: "(if session_trx_is_active s then start_trx_replay env s
             else if Some b = m_current_master s
             then (if can_retry_query s then retry_master_query s b else Some (False, s))
             else if retry_failed_reads (m_config s)
             then (case m_current_query s of
                     Some q \<Rightarrow> Some (True, retry_query q 1 (s\<lparr>m_current_query := None\<rparr>))
                   | None \<Rightarrow> None)
             else Some (False, s)) = Some (ok1, s1)"
    and out: "s' = (if ok1 then (backend_upd (ack_write env) b s1)
                                  \<lparr>m_expected_responses := m_expected_responses s1 - 1\<rparr>
                    else s1)"
    using assms(2) by (auto simp: handle_ignorable_error_def split: option.splits)
  have "trx_record s1 = trx_record s \<and> trx_flags s1 = trx_flags s"
    using inner start_trx_replay_not_replayable [OF assms(1), of env]
      retry_master_query_trx_record [of s b ok1 s1]
    by (auto simp: retry_query_def trx_flags_def split: if_splits option.splits)
  with out show ?thesis by (simp add: backend_upd_def trx_flags_def)
qed

lemma discard_master_wait_gtid_result_trx_record:
  "discard_master_wait_gtid_result s w = Some (w', s') \<Longrightarrow>
     trx_record s' = trx_record s \<and> trx_flags s' = trx_flags s"
  by (auto simp: discard_master_wait_gtid_result_def Let_def trx_flags_def split: if_splits)

lemma handle_causal_read_reply_keeps:
  "(case handle_causal_read_reply s w b of
      None \<Rightarrow> True
    | Some r \<Rightarrow> trx_record (snd r) = trx_record s \<and> trx_flags (snd r) = trx_flags s)"
  by (simp add: handle_causal_read_reply_def discard_master_wait_gtid_result_def Let_def
      trx_flags_def split: option.split prod.split)

lemma handle_causal_read_reply_trx_record:
  assumes "handle_causal_read_reply s w b = Some (w', s')"
  shows "trx_record s' = trx_record s \<and> trx_flags s' = trx_flags s"
  using handle_causal_read_reply_keeps [where s = s and w = w and b = b] assms by simp

lemma manage_transactions_not_replayable:
  "\<not> m_can_replay_trx s \<Longrightarrow>
     trx_record (manage_transactions s b w) = trx_record s
     \<and> trx_flags (manage_transactions s b w) = trx_flags s"
  by (simp add: manage_transactions_def terminate_def trx_flags_def)

lemma clientReply_route_stored_trx_record:
  "env_preserves env trx_record \<Longrightarrow>
     trx_record (snd (clientReply_route_stored env s b p w)) = trx_record s"
  by (simp add: clientReply_route_stored_def Let_def route_stored_query_trx_record
      split: prod.splits)

lemma clientReply_processed_trx_record:
  assumes "env_preserves env trx_record"
  shows "trx_record (snd (clientReply_processed env s b w)) = trx_record s
         \<or> (\<not> b_has_session_commands (backends s b) \<and> \<not> m_is_replay_active s
            \<and> transaction_replay (m_config s) \<and> session_trx_is_ending s)"
proof (cases "b_has_session_commands (backends s b)")
  case True
  obtain w' s1 where p: "process_sescmd_response env b w s = (w', s1)"
    by (cases "process_sescmd_response env b w s")
  have "trx_record s1 = trx_record s"
    using assms p by (metis env_preserves_def snd_conv)
  with True p show ?thesis
    by (simp add: clientReply_processed_def clientReply_route_stored_trx_record [OF assms])
next
  case False
  then show ?thesis
    by (simp add: clientReply_processed_def Let_def clientReply_route_stored_trx_record [OF assms]
        trx_replay_next_stmt_trx_record [OF assms])
qed

lemma clientReply_complete_keeps:
  assumes "env_preserves env trx_record" and "\<not> m_can_replay_trx s"
  shows "(case clientReply_complete env s b w of
            None \<Rightarrow> True
          | Some r \<Rightarrow> trx_record (snd r) = trx_record s
                       \<or> (transaction_replay (m_config s) \<and> session_trx_is_ending s))"
proof -
  let ?s1 = "(backend_upd (ack_write env) b s)\<lparr>m_expected_responses := m_expected_responses s - 1\<rparr>"
  let ?s2 = "if causal_reads (m_config ?s1) then ?s1\<lparr>m_wait_gtid := NONE\<rparr> else ?s1"
  have k: "trx_record ?s2 = trx_record s" "m_config ?s2 = m_config s"
    "session_trx_is_ending ?s2 = session_trx_is_ending s"
    by (simp_all add: backend_upd_def)
  have nr: "\<not> m_can_replay_trx (?s2\<lparr>m_otrx_state := OTRX_INACTIVE\<rparr>)"
    using assms(2) by (simp add: backend_upd_def)
  have p: "trx_record (snd (clientReply_processed env ?s2 b w)) = trx_record s
           \<or> (transaction_replay (m_config s) \<and> session_trx_is_ending s)"
    using clientReply_processed_trx_record [OF assms(1), of ?s2 b w] k by auto
  have c: "clientReply_complete env s b w =
           (if m_wait_gtid ?s1 = RETRYING_ON_MASTER
            then (case m_current_query ?s1 of
                    None \<Rightarrow> None
                  | Some buf \<Rightarrow>
                      Some (None,
                            retry_query (buf\<lparr>gw_hint := hint_create_route (gw_hint buf) HINT_ROUTE_TO_MASTER\<rparr>) 0
                              (?s1\<lparr>m_wait_gtid := NONE, m_current_query := None\<rparr>)))
            else if m_otrx_state ?s2 = OTRX_ROLLBACK
            then Some (None, ?s2\<lparr>m_otrx_state := OTRX_INACTIVE\<rparr>)
            else Some (clientReply_processed env ?s2 b w))"
    unfolding clientReply_complete_def Let_def start_trx_replay_not_replayable [OF nr] by simp
  show ?thesis
  proof (cases "m_wait_gtid ?s1 = RETRYING_ON_MASTER")
    case True
    then show ?thesis
      by (simp add: c retry_query_def backend_upd_def split: option.split)
  next
    case nw: False
    show ?thesis
    proof (cases "m_otrx_state ?s2 = OTRX_ROLLBACK")
      case True
      have "trx_record (?s2\<lparr>m_otrx_state := OTRX_INACTIVE\<rparr>) = trx_record s"
        using k(1) by simp
      with nw True show ?thesis by (simp add: c)
    next
      case False
      with nw p show ?thesis by (simp add: c)
    qed
  qed
qed

lemma clientReply_unfold:
  assumes "handle_causal_read_reply s writebuf backend = Some (Some wb1, s1)"
    and "(if err_is_unexpected_error (rep_error reply)
          then erase_last_packet wb1 else Some (Some wb1)) = Some (Some wb2)"
    and "(if err_is_rollback (rep_error reply) \<or> is_wsrep_error (rep_error reply)
          then handle_ignorable_error env s1 backend else Some (False, s1)) = Some (ok, s2)"
  shows "clientReply env s writebuf backend reply =
           (if ok then Some (None, s2)
            else if rep_is_complete reply
            then clientReply_complete env (manage_transactions s2 backend wb2) backend wb2
            else Some (clientReply_processed env (manage_transactions s2 backend wb2) backend wb2))"
  unfolding clientReply_def assms(1) using assms(2,3) by (cases ok) (simp_all add: Let_def)

lemma clientReply_non_replayable:
  assumes "\<not> m_can_replay_trx s" and "env_preserves env trx_record"
    and "clientReply env s writebuf backend reply = Some (fwd, s')"
  shows "(m_can_replay_trx s' \<longrightarrow> transaction_replay (m_config s) \<and> session_trx_is_ending s)
         \<and> (\<not> session_trx_is_ending s \<longrightarrow> m_trx s' = m_trx s)"
proof -
  have goal: "trx_record s' = trx_record s
              \<or> (transaction_replay (m_config s) \<and> session_trx_is_ending s)"
  proof -
    obtain w1 s1 where h: "handle_causal_read_reply s writebuf backend = Some (w1, s1)"
      using assms(3) by (cases "handle_causal_read_reply s writebuf backend")
        (auto simp: clientReply_def)
    have k1: "trx_record s1 = trx_record s" "trx_flags s1 = trx_flags s"
      using handle_causal_read_reply_trx_record [OF h] by simp_all
    have n1: "\<not> m_can_replay_trx s1" using k1 assms(1) by (simp add: trx_record_def)
    show ?thesis
    proof (cases w1)
      case None
      with assms(3) h k1 show ?thesis by (simp add: clientReply_def)
    next
      case (Some wb1)
      note h1 = h [unfolded Some]
      obtain e where e: "(if err_is_unexpected_error (rep_error reply)
                          then erase_last_packet wb1 else Some (Some wb1)) = e" by simp
      show ?thesis
      proof (cases e)
        case None
        with assms(3) e show ?thesis unfolding clientReply_def h1 by simp
      next
        case (Some e1)
        note e1 = this
        show ?thesis
        proof (cases e1)
          case None
          with assms(3) e e1 k1 show ?thesis unfolding clientReply_def h1 by simp
        next
          case (Some wb2)
          note e2 = e [unfolded e1 Some]
          obtain r where r: "(if err_is_rollback (rep_error reply) \<or> is_wsrep_error (rep_error reply)
                              then handle_ignorable_error env s1 backend else Some (False, s1)) = r"
            by simp
          show ?thesis
          proof (cases r)
            case None
            with assms(3) e2 r show ?thesis unfolding clientReply_def h1 by simp
          next
            case (Some oks)
            obtain ok s2 where oks: "oks = (ok, s2)" by (cases oks)
            note r2 = r [unfolded Some oks]
            have k2: "trx_record s2 = trx_record s1 \<and> trx_flags s2 = trx_flags s1"
              using r2 handle_ignorable_error_trx_record [OF n1, of env backend ok s2]
              by (auto split: if_splits)
            have n2: "\<not> m_can_replay_trx s2" using k2 n1 by (simp add: trx_record_def)
            let ?s3 = "manage_transactions s2 backend wb2"
            have k3: "trx_record ?s3 = trx_record s" "trx_flags ?s3 = trx_flags s"
              using manage_transactions_not_replayable [OF n2, of backend wb2] k2 k1 by simp_all
            have n3: "\<not> m_can_replay_trx ?s3" using k3 assms(1) by (simp add: trx_record_def)
            note c = assms(3) [unfolded clientReply_unfold [OF h1 e2 r2]]
            show ?thesis
            proof (cases ok)
              case True
              with c k2 k1 show ?thesis by simp
            next
              case nok: False
              show ?thesis
              proof (cases "rep_is_complete reply")
                case True
                with c nok have "clientReply_complete env ?s3 backend wb2 = Some (fwd, s')" by simp
                with clientReply_complete_keeps [OF assms(2) n3, where b = backend and w = wb2] k3 show ?thesis
                  by (auto simp: trx_flags_def)
              next
                case False
                with c nok have "clientReply_processed env ?s3 backend wb2 = (fwd, s')" by simp
                then have "s' = snd (clientReply_processed env ?s3 backend wb2)" by simp
                with clientReply_processed_trx_record [OF assms(2), of ?s3 backend wb2] k3
                show ?thesis by (auto simp: trx_flags_def)
              qed
            qed
          qed
        qed
      qed
    qed
  qed
  with assms(1) show ?thesis by (auto simp: trx_record_def)
qed
















subsection \<open>Transaction replay: the end of a replay\<close>

lemma begin_replay_started_eq:
  "begin_replay_started =
     idle_session\<lparr>session_trx_is_active := True,
                  m_num_trx_replays := 1, m_orig_stmt := Some stmt_begin,
                  m_is_replay_active := True,
                  m_replayed_trx := empty_trx\<lparr>trx_checksum := \<lparr>sha_ctx = [], sha_sum = []\<rparr>\<rparr>,
                  m_retry_duration := 1,
                  rws_events := [Retry_query (stmt_begin\<lparr>gw_replayed := True\<rparr>) 1]\<rparr>"
  by (simp add: begin_replay_started_def begin_interrupted_def start_trx_replay_def
      idle_session_def simple_env_def Let_def trx_have_stmts_def empty_trx_def trx_finalize_def
      checksum_finalize_def trx_close_def checksum_reset_def retry_query_def)

lemma begin_replay_routed_eq:
  "begin_replay_routed =
     begin_replay_started\<lparr>m_expected_responses := 1,
                          m_current_query := Some (stmt_begin\<lparr>gw_replayed := True\<rparr>),
                          dispatched := [stmt_begin\<lparr>gw_replayed := True\<rparr>]\<rparr>"
  by (simp add: begin_replay_routed_def begin_replay_started_eq routeQuery_def
      can_route_queries_def idle_session_def simple_env_def Let_def)

lemma begin_replay_done_eq:
  "begin_replay_done =
     (Some (plain_buffer short_ok_packet),
      begin_replay_routed\<lparr>m_expected_responses := 0, m_current_query := None,
                           m_is_replay_active := False, m_num_trx_replays := 0,
                           m_trx := \<lparr>trx_checksum = \<lparr>sha_ctx = short_ok_packet,
                                                     sha_sum = replicate 20 0\<rparr>,
                                    trx_log = [stmt_begin\<lparr>gw_replayed := True\<rparr>],
                                    trx_size = 10\<rparr>,
                           backends := (\<lambda>i. idle_backend)
                              (0 := idle_backend\<lparr>b_is_waiting_result := False\<rparr>)\<rparr>)"
  by (simp add: begin_replay_done_def begin_replay_routed_eq begin_replay_started_eq
      clientReply_def handle_causal_read_reply_def ok_reply_def is_wsrep_error_def
      manage_transactions_def clientReply_complete_def clientReply_processed_def
      clientReply_route_stored_def trx_replay_next_stmt_def backend_upd_def
      idle_session_def idle_backend_def simple_env_def plain_buffer_def stmt_begin_def
      buffer_length_def trx_add_result_def trx_add_stmt_def checksum_update_def
      empty_trx_def trx_empty_def Let_def)

text \<open>
  Claim C1. When \<^verbatim>\<open>trx_replay_next_stmt\<close> finds no statement left to replay and the
  replayed transaction is not empty, it compares the digest of the bytes the server sent
  during the replay (the checksum of the current transaction, finalized) with the digest
  taken before the failure (the checksum of the replayed transaction). If they are equal
  the replay is over and the interrupted statement is retried, or else the queued
  statements are routed; if they differ the session is terminated with error 1927, state
  08S01, and the replay flag is set again. Hence a call that does not end in that error
  had equal digests. When the replayed transaction is empty, the digests are not looked
  at: the replay is over, nothing is retried and no error is raised, and the part of
  \<^verbatim>\<open>clientReply\<close> that follows hands the reply at hand on to the client.
\<close>

theorem trx_replay_next_stmt_checksum:
  assumes "trx_log (m_replayed_trx s) = []"
  shows "(\<not> trx_empty (m_replayed_trx s) \<longrightarrow>
          (let post = sha1 env (sha_ctx (trx_checksum (m_trx s)));
              pre = sha_sum (trx_checksum (m_replayed_trx s));
              s0 = s\<lparr>m_is_replay_active := False, m_num_trx_replays := 0\<rparr>;
              s' = trx_replay_next_stmt env s
          in (post = pre \<longrightarrow>
                (case m_interrupted_query s of
                   Some q \<Rightarrow> s' = retry_query q 0 (s0\<lparr>m_interrupted_query := None\<rparr>)
                 | None \<Rightarrow> s' = (if m_query_queue s \<noteq> [] then snd (route_stored_query env s0)
                                  else s0)))
             \<and> (post \<noteq> pre \<longrightarrow>
                  s' = s0\<lparr>rws_events := rws_events s @
                            [Terminate (Some (Mysql_err_msg 1 0 1927 ''08S01''
                               ''Transaction checksum mismatch encountered when replaying transaction.''))],
                          m_is_replay_active := True\<rparr>)
             \<and> (Terminate (Some checksum_mismatch_error)
                   \<notin> set (drop (length (rws_events s)) (rws_events s')) \<longrightarrow> post = pre)))
       \<and> (trx_empty (m_replayed_trx s) \<longrightarrow>
            trx_replay_next_stmt env s = s\<lparr>m_is_replay_active := False, m_num_trx_replays := 0\<rparr>
            \<and> (m_is_replay_active s \<and> \<not> b_has_session_commands (backends s backend)
                \<longrightarrow> fst (clientReply_processed env s backend writebuf) = Some writebuf))"
proof (intro conjI impI)
  assume "\<not> trx_empty (m_replayed_trx s)"
  with assms
  show "let post = sha1 env (sha_ctx (trx_checksum (m_trx s)));
              pre = sha_sum (trx_checksum (m_replayed_trx s));
              s0 = s\<lparr>m_is_replay_active := False, m_num_trx_replays := 0\<rparr>;
              s' = trx_replay_next_stmt env s
          in (post = pre \<longrightarrow>
                (case m_interrupted_query s of
                   Some q \<Rightarrow> s' = retry_query q 0 (s0\<lparr>m_interrupted_query := None\<rparr>)
                 | None \<Rightarrow> s' = (if m_query_queue s \<noteq> [] then snd (route_stored_query env s0)
                                  else s0)))
             \<and> (post \<noteq> pre \<longrightarrow>
                  s' = s0\<lparr>rws_events := rws_events s @
                            [Terminate (Some (Mysql_err_msg 1 0 1927 ''08S01''
                               ''Transaction checksum mismatch encountered when replaying transaction.''))],
                          m_is_replay_active := True\<rparr>)
             \<and> (Terminate (Some checksum_mismatch_error)
                   \<notin> set (drop (length (rws_events s)) (rws_events s')) \<longrightarrow> post = pre)"
    by (auto simp: trx_replay_next_stmt_def Let_def checksum_eq_def checksum_finalize_def
        terminate_def checksum_mismatch_error_def split: option.splits)
next
  assume e: "trx_empty (m_replayed_trx s)"
  with assms
  show n: "trx_replay_next_stmt env s = s\<lparr>m_is_replay_active := False, m_num_trx_replays := 0\<rparr>"
    by (simp add: trx_replay_next_stmt_def Let_def)
  assume a: "m_is_replay_active s \<and> \<not> b_has_session_commands (backends s backend)"
  show "fst (clientReply_processed env s backend writebuf) = Some writebuf"
  proof (cases "m_expected_responses s = 0")
    case True
    with a e n show ?thesis
      by (simp add: clientReply_processed_def Let_def clientReply_route_stored_fst)
  next
    case False
    with a e show ?thesis
      by (simp add: clientReply_processed_def Let_def clientReply_route_stored_fst)
  qed
qed

theorem trx_replay_next_stmt_checksum_witness:
  "trx_log (m_replayed_trx (replay_finished [1, 2, 3])) = []
   \<and> \<not> trx_empty (m_replayed_trx (replay_finished [1, 2, 3]))
   \<and> trx_replay_next_stmt simple_env (replay_finished [1, 2, 3])
       = retry_query stmt_c 0
           ((replay_finished [1, 2, 3])\<lparr>m_is_replay_active := False, m_num_trx_replays := 0,
                                         m_interrupted_query := None\<rparr>)
   \<and> trx_replay_next_stmt simple_env (replay_finished [9])
       = (replay_finished [9])\<lparr>m_is_replay_active := False, m_num_trx_replays := 0,
                                rws_events := [Terminate (Some checksum_mismatch_error)],
                                m_is_replay_active := True\<rparr>
   \<and> trx_log (m_replayed_trx begin_replay_started) = []
   \<and> trx_empty (m_replayed_trx begin_replay_started)
   \<and> m_is_replay_active begin_replay_started
   \<and> trx_replay_next_stmt simple_env begin_replay_started
       = begin_replay_started\<lparr>m_is_replay_active := False, m_num_trx_replays := 0\<rparr>
   \<and> fst (clientReply_processed simple_env begin_replay_started 0 (plain_buffer short_ok_packet))
       = Some (plain_buffer short_ok_packet)"
proof -
  have l: "trx_log (m_replayed_trx (replay_finished r)) = []" for r
    by (simp add: replay_finished_def)
  have e: "\<not> trx_empty (m_replayed_trx (replay_finished r))" for r
    by (simp add: replay_finished_def trx_empty_def)
  have f: "sha1 simple_env (sha_ctx (trx_checksum (m_trx (replay_finished r)))) = r"
          "sha_sum (trx_checksum (m_replayed_trx (replay_finished r))) = [1, 2, 3]"
          "m_interrupted_query (replay_finished r) = Some stmt_c"
          "rws_events (replay_finished r) = []" for r
    by (simp_all add: replay_finished_def simple_env_def idle_session_def)
  have b: "trx_log (m_replayed_trx begin_replay_started) = []"
          "trx_empty (m_replayed_trx begin_replay_started)"
          "m_is_replay_active begin_replay_started"
          "\<not> b_has_session_commands (backends begin_replay_started 0)"
    by (simp_all add: begin_replay_started_eq empty_trx_def trx_empty_def idle_session_def
        idle_backend_def)
  from trx_replay_next_stmt_checksum
         [OF b(1), of simple_env 0 "plain_buffer short_ok_packet"] b
  have g: "trx_replay_next_stmt simple_env begin_replay_started
             = begin_replay_started\<lparr>m_is_replay_active := False, m_num_trx_replays := 0\<rparr>"
          "fst (clientReply_processed simple_env begin_replay_started 0
                  (plain_buffer short_ok_packet)) = Some (plain_buffer short_ok_packet)"
    by simp_all
  show ?thesis
    using trx_replay_next_stmt_checksum [OF l [of "[1, 2, 3]"], of simple_env]
      trx_replay_next_stmt_checksum [OF l [of "[9]"], of simple_env] l e b(1-3) g
    by (simp add: f Let_def checksum_mismatch_error_def)
qed

text \<open>
  When the replayed transaction is empty no digests are compared. The session was
  executing \<open>BEGIN\<close> when the master was lost, so the transaction record was still
  empty. The replay retries \<open>BEGIN\<close>; its OK packet ends the replay, is forwarded to
  the client, and no error is raised, although the digest of the replayed result differs
  from the digest taken when the replay started.
\<close>

theorem empty_replay_skips_checksum_counterexample:
  "fst begin_replay_done = Some (plain_buffer short_ok_packet)
   \<and> \<not> m_is_replay_active (snd begin_replay_done)
   \<and> rws_events (snd begin_replay_done) = [Retry_query (stmt_begin\<lparr>gw_replayed := True\<rparr>) 1]
   \<and> sha1 simple_env (sha_ctx (trx_checksum (m_trx (snd begin_replay_done))))
       \<noteq> sha_sum (trx_checksum (m_replayed_trx (snd begin_replay_done)))"
  by (simp add: begin_replay_done_eq begin_replay_routed_eq begin_replay_started_eq
      simple_env_def short_ok_packet_def)

subsection \<open>Transaction replay: the attempt cap and the snapshot\<close>

lemma routeQuery_num_trx_replays:
  assumes "\<forall>q st. m_num_trx_replays (snd (route_single_stmt env q st)) = m_num_trx_replays st"
  shows "m_num_trx_replays (snd (routeQuery env s q)) = m_num_trx_replays s"
  using assms by (simp add: routeQuery_def Let_def split_beta)

lemma route_stored_loop_num_trx_replays:
  assumes "\<forall>q st. m_num_trx_replays (snd (route_single_stmt env q st)) = m_num_trx_replays st"
  shows "m_num_trx_replays (snd (route_stored_loop env rval s qs)) = m_num_trx_replays s"
proof (induction qs arbitrary: rval s)
  case Nil
  then show ?case by simp
next
  case (Cons q qs)
  show ?case
  proof (cases q)
    case None
    with Cons show ?thesis by simp
  next
    case (Some query)
    obtain rc s1 where r: "routeQuery env (s\<lparr>m_query_queue := []\<rparr>) query = (rc, s1)"
      by (cases "routeQuery env (s\<lparr>m_query_queue := []\<rparr>) query")
    have k: "m_num_trx_replays s1 = m_num_trx_replays s"
      using routeQuery_num_trx_replays [OF assms, of "s\<lparr>m_query_queue := []\<rparr>" query] r
      by simp
    show ?thesis
      using Some r k Cons.IH by (simp add: Let_def split: list.splits)
  qed
qed

lemma trx_replay_next_stmt_resets:
  assumes "\<forall>q st. m_num_trx_replays (snd (route_single_stmt env q st)) = m_num_trx_replays st"
    and "trx_log (m_replayed_trx s) = []"
  shows "m_num_trx_replays (trx_replay_next_stmt env s) = 0"
  using assms(2)
  by (simp add: trx_replay_next_stmt_def Let_def retry_query_def terminate_def
      route_stored_query_def route_stored_loop_num_trx_replays [OF assms(1)]
      split: option.splits)

lemma start_trx_replay_restart:
  assumes a: "m_is_replay_active s" and r: "start_trx_replay env s = Some (True, s')"
  shows "m_orig_trx s' = m_orig_trx s \<and> m_orig_stmt s' = m_orig_stmt s
     \<and> start_trx_replay env (s\<lparr>m_trx := t, m_current_query := c\<rparr>) = Some (True, s')
     \<and> (case trx_log (m_orig_trx s) of
          b # rest \<Rightarrow>
            rws_events s' = rws_events s @ [Retry_query (b\<lparr>gw_replayed := True\<rparr>) 1]
            \<and> m_replayed_trx s' = (trx_finalize (sha1 env) (m_orig_trx s))\<lparr>trx_log := rest\<rparr>
            \<and> m_interrupted_query s' = m_orig_stmt s
            \<and> m_trx s' = trx_close (m_orig_trx s)
        | [] \<Rightarrow>
           (case m_orig_stmt s of
              Some q \<Rightarrow>
                rws_events s' = rws_events s @ [Retry_query (q\<lparr>gw_replayed := True\<rparr>) 1]
                \<and> m_replayed_trx s' = trx_finalize (sha1 env) (m_orig_trx s)
                \<and> m_interrupted_query s' = None
                \<and> m_trx s' = trx_close (m_orig_trx s)
            | None \<Rightarrow>
                rws_events s' = rws_events s \<and> m_trx s' = m_orig_trx s
                \<and> m_current_query s' = None))"
proof -
  from r have g: "transaction_replay (m_config s)" "m_can_replay_trx s"
    "m_num_trx_replays s < trx_max_attempts (m_config s)" "None \<notin> set (m_query_queue s)"
    using a by (auto simp: start_trx_replay_def Let_def split: if_splits)
  show ?thesis
  proof (cases "trx_log (m_orig_trx s)")
    case (Cons b rest)
    with r a g show ?thesis
      by (auto simp: start_trx_replay_def Let_def retry_query_def trx_finalize_def
          trx_close_def trx_have_stmts_def)
  next
    case Nil
    show ?thesis
    proof (cases "m_orig_stmt s")
      case None
      with Nil r a g show ?thesis
        by (auto simp: start_trx_replay_def Let_def trx_have_stmts_def)
    next
      case (Some q)
      with Nil r a g show ?thesis
        by (auto simp: start_trx_replay_def Let_def retry_query_def trx_finalize_def
            trx_close_def trx_have_stmts_def)
    qed
  qed
qed

text \<open>
  Claim C2, with the count that the code keeps. \<^verbatim>\<open>start_trx_replay\<close> returns true only
  if \<^verbatim>\<open>m_num_trx_replays\<close> is below \<^verbatim>\<open>trx_max_attempts\<close>, and it then adds one to it; once
  the cap is reached it returns false and leaves the session as it is. The count is set
  back to zero by \<^verbatim>\<open>trx_replay_next_stmt\<close> whenever no statement is left to replay, so it
  counts the attempts since the last replay that ran to its end. The first attempt (no
  replay active) stores the transaction and the current query as the snapshot. Every
  later attempt (a replay is active) starts from the snapshot and not from the current
  transaction and query, which have no influence on the outcome; the snapshot stays as it
  is. If the snapshot has statements, the first is retried, the others are the statements
  left to replay, the checksum to compare with is the digest of the original results, and
  the interrupted query is the one of the snapshot. If it has none but an interrupted
  statement, that statement is retried and nothing is left to replay. If it has neither,
  nothing is retried.
\<close>

theorem start_trx_replay_cap_and_restore:
  "(\<forall>s'. start_trx_replay env s = Some (True, s') \<longrightarrow>
       m_num_trx_replays s < trx_max_attempts (m_config s)
       \<and> m_num_trx_replays s' = m_num_trx_replays s + 1)
   \<and> (m_num_trx_replays s \<ge> trx_max_attempts (m_config s) \<longrightarrow>
       start_trx_replay env s = Some (False, s))
   \<and> ((\<forall>q st. m_num_trx_replays (snd (route_single_stmt env q st)) = m_num_trx_replays st)
       \<and> trx_log (m_replayed_trx s) = [] \<longrightarrow>
       m_num_trx_replays (trx_replay_next_stmt env s) = 0)
   \<and> (\<forall>s'. \<not> m_is_replay_active s \<and> start_trx_replay env s = Some (True, s') \<longrightarrow>
       m_orig_trx s' = m_trx s \<and> m_orig_stmt s' = m_current_query s)
   \<and> (\<forall>s' t c. m_is_replay_active s \<and> start_trx_replay env s = Some (True, s') \<longrightarrow>
       m_orig_trx s' = m_orig_trx s \<and> m_orig_stmt s' = m_orig_stmt s
       \<and> start_trx_replay env (s\<lparr>m_trx := t, m_current_query := c\<rparr>) = Some (True, s')
       \<and> (case trx_log (m_orig_trx s) of
            b # rest \<Rightarrow>
              rws_events s' = rws_events s @ [Retry_query (b\<lparr>gw_replayed := True\<rparr>) 1]
              \<and> m_replayed_trx s' = (trx_finalize (sha1 env) (m_orig_trx s))\<lparr>trx_log := rest\<rparr>
              \<and> m_interrupted_query s' = m_orig_stmt s
              \<and> m_trx s' = trx_close (m_orig_trx s)
          | [] \<Rightarrow>
             (case m_orig_stmt s of
                Some q \<Rightarrow>
                  rws_events s' = rws_events s @ [Retry_query (q\<lparr>gw_replayed := True\<rparr>) 1]
                  \<and> m_replayed_trx s' = trx_finalize (sha1 env) (m_orig_trx s)
                  \<and> m_interrupted_query s' = None
                  \<and> m_trx s' = trx_close (m_orig_trx s)
              | None \<Rightarrow>
                  rws_events s' = rws_events s \<and> m_trx s' = m_orig_trx s
                  \<and> m_current_query s' = None)))"
proof (intro conjI allI impI)
  fix s'
  assume "start_trx_replay env s = Some (True, s')"
  then show "m_num_trx_replays s < trx_max_attempts (m_config s)"
    and "m_num_trx_replays s' = m_num_trx_replays s + 1"
    by (auto simp: start_trx_replay_def Let_def retry_query_def
        split: if_splits list.splits option.splits)
next
  assume "trx_max_attempts (m_config s) \<le> m_num_trx_replays s"
  then show "start_trx_replay env s = Some (False, s)" by (simp add: start_trx_replay_def)
next
  assume "(\<forall>q st. m_num_trx_replays (snd (route_single_stmt env q st)) = m_num_trx_replays st)
          \<and> trx_log (m_replayed_trx s) = []"
  then show "m_num_trx_replays (trx_replay_next_stmt env s) = 0"
    using trx_replay_next_stmt_resets [of env s] by blast
next
  fix s'
  assume "\<not> m_is_replay_active s \<and> start_trx_replay env s = Some (True, s')"
  then show "m_orig_trx s' = m_trx s" and "m_orig_stmt s' = m_current_query s"
    by (auto simp: start_trx_replay_def Let_def retry_query_def
        split: if_splits list.splits option.splits)
next
  fix s' t c
  assume a: "m_is_replay_active s \<and> start_trx_replay env s = Some (True, s')"
  note r = start_trx_replay_restart [where s = s and env = env and s' = s' and t = t and c = c]
  from a r show "m_orig_trx s' = m_orig_trx s" by blast
  from a r show "m_orig_stmt s' = m_orig_stmt s" by blast
  from a r show "start_trx_replay env (s\<lparr>m_trx := t, m_current_query := c\<rparr>) = Some (True, s')"
    by blast
  from a r show "case trx_log (m_orig_trx s) of
            b # rest \<Rightarrow>
              rws_events s' = rws_events s @ [Retry_query (b\<lparr>gw_replayed := True\<rparr>) 1]
              \<and> m_replayed_trx s' = (trx_finalize (sha1 env) (m_orig_trx s))\<lparr>trx_log := rest\<rparr>
              \<and> m_interrupted_query s' = m_orig_stmt s
              \<and> m_trx s' = trx_close (m_orig_trx s)
          | [] \<Rightarrow>
             (case m_orig_stmt s of
                Some q \<Rightarrow>
                  rws_events s' = rws_events s @ [Retry_query (q\<lparr>gw_replayed := True\<rparr>) 1]
                  \<and> m_replayed_trx s' = trx_finalize (sha1 env) (m_orig_trx s)
                  \<and> m_interrupted_query s' = None
                  \<and> m_trx s' = trx_close (m_orig_trx s)
              | None \<Rightarrow>
                  rws_events s' = rws_events s \<and> m_trx s' = m_orig_trx s
                  \<and> m_current_query s' = None)"
    by blast
qed

lemma start_trx_replay_first:
  "start_trx_replay simple_env interrupted_session
     = Some (True, interrupted_session
               \<lparr>m_num_trx_replays := 1,
                m_orig_trx := m_trx interrupted_session,
                m_orig_stmt := Some stmt_c,
                m_interrupted_query := Some stmt_c,
                m_current_query := None,
                m_is_replay_active := True,
                m_replayed_trx := \<lparr>trx_checksum = \<lparr>sha_ctx = [1, 2, 3], sha_sum = [1, 2, 3]\<rparr>,
                                  trx_log = [stmt_b], trx_size = 12\<rparr>,
                m_trx := empty_trx,
                m_retry_duration := 1,
                rws_events := [Retry_query (stmt_a\<lparr>gw_replayed := True\<rparr>) 1]\<rparr>)"
  by (simp add: start_trx_replay_def interrupted_session_def idle_session_def simple_env_def
      Let_def trx_have_stmts_def empty_trx_def trx_finalize_def checksum_finalize_def
      trx_close_def checksum_reset_def retry_query_def)

lemma start_trx_replay_again:
  "\<exists>s'. start_trx_replay simple_env retrying_session = Some (True, s')"
  by (simp add: start_trx_replay_def retrying_session_def idle_session_def simple_env_def
      Let_def trx_have_stmts_def trx_finalize_def trx_close_def)

lemma start_trx_replay_begin_again:
  "\<exists>s'. start_trx_replay simple_env begin_retrying_session = Some (True, s')"
  by (simp add: start_trx_replay_def begin_retrying_session_def idle_session_def simple_env_def
      Let_def trx_have_stmts_def trx_finalize_def trx_close_def empty_trx_def)

theorem start_trx_replay_cap_and_restore_witness:
  "\<not> m_is_replay_active interrupted_session
   \<and> m_orig_trx (snd (the (start_trx_replay simple_env interrupted_session)))
       = m_trx interrupted_session
   \<and> m_is_replay_active retrying_session
   \<and> trx_log (m_orig_trx retrying_session) = [stmt_a, stmt_b]
   \<and> m_num_trx_replays retrying_session < trx_max_attempts (m_config retrying_session)
   \<and> rws_events (snd (the (start_trx_replay simple_env retrying_session)))
       = [Retry_query (stmt_a\<lparr>gw_replayed := True\<rparr>) 1]
   \<and> trx_log (m_replayed_trx (snd (the (start_trx_replay simple_env retrying_session))))
       = [stmt_b]
   \<and> m_interrupted_query (snd (the (start_trx_replay simple_env retrying_session)))
       = Some stmt_c
   \<and> m_num_trx_replays (snd (the (start_trx_replay simple_env retrying_session))) = 2
   \<and> start_trx_replay simple_env (retrying_session\<lparr>m_num_trx_replays := 5\<rparr>)
       = Some (False, retrying_session\<lparr>m_num_trx_replays := 5\<rparr>)
   \<and> m_is_replay_active begin_retrying_session
   \<and> trx_log (m_orig_trx begin_retrying_session) = []
   \<and> trx_log (m_trx begin_retrying_session) = [stmt_begin\<lparr>gw_replayed := True\<rparr>]
   \<and> rws_events (snd (the (start_trx_replay simple_env begin_retrying_session)))
       = [Retry_query (stmt_begin\<lparr>gw_replayed := True\<rparr>) 1]
   \<and> trx_size (m_replayed_trx (snd (the (start_trx_replay simple_env begin_retrying_session))))
       = 0
   \<and> m_interrupted_query (snd (the (start_trx_replay simple_env begin_retrying_session)))
       = None
   \<and> start_trx_replay simple_env (begin_retrying_session\<lparr>m_trx := empty_trx, m_current_query := Some stmt_c\<rparr>)
       = start_trx_replay simple_env begin_retrying_session
   \<and> m_num_trx_replays (trx_replay_next_stmt simple_env (replay_finished [1, 2, 3])) = 0"
proof -
  obtain s' where s': "start_trx_replay simple_env retrying_session = Some (True, s')"
    using start_trx_replay_again by blast
  obtain b' where b': "start_trx_replay simple_env begin_retrying_session = Some (True, b')"
    using start_trx_replay_begin_again by blast
  have a: "m_is_replay_active retrying_session"
          "trx_log (m_orig_trx retrying_session) = [stmt_a, stmt_b]"
          "m_orig_stmt retrying_session = Some stmt_c"
          "rws_events retrying_session = []"
          "m_num_trx_replays retrying_session = 1"
          "trx_max_attempts (m_config retrying_session) = 5"
    by (simp_all add: retrying_session_def idle_session_def)
  have g: "m_is_replay_active begin_retrying_session"
          "trx_log (m_orig_trx begin_retrying_session) = []"
          "m_orig_stmt begin_retrying_session = Some stmt_begin"
          "rws_events begin_retrying_session = []"
          "trx_size (m_orig_trx begin_retrying_session) = 0"
          "trx_log (m_trx begin_retrying_session) = [stmt_begin\<lparr>gw_replayed := True\<rparr>]"
    by (simp_all add: begin_retrying_session_def idle_session_def empty_trx_def)
  have n: "\<not> m_is_replay_active interrupted_session"
    by (simp add: interrupted_session_def idle_session_def)
  have c: "trx_max_attempts (m_config (retrying_session\<lparr>m_num_trx_replays := 5\<rparr>))
             \<le> m_num_trx_replays (retrying_session\<lparr>m_num_trx_replays := 5\<rparr>)"
    by (simp add: retrying_session_def idle_session_def)
  have p: "\<forall>q st. m_num_trx_replays (snd (route_single_stmt simple_env q st))
             = m_num_trx_replays st"
          "trx_log (m_replayed_trx (replay_finished [1, 2, 3])) = []"
    by (simp_all add: simple_env_def replay_finished_def)
  from start_trx_replay_cap_and_restore [of simple_env retrying_session] s' a
  have r: "rws_events s' = [Retry_query (stmt_a\<lparr>gw_replayed := True\<rparr>) 1]"
          "trx_log (m_replayed_trx s') = [stmt_b]"
          "m_interrupted_query s' = Some stmt_c"
          "m_num_trx_replays s' = 2"
    by (auto simp: trx_finalize_def)
  from start_trx_replay_cap_and_restore [of simple_env begin_retrying_session] b' g
  have h: "rws_events b' = [Retry_query (stmt_begin\<lparr>gw_replayed := True\<rparr>) 1]"
          "trx_size (m_replayed_trx b') = 0"
          "m_interrupted_query b' = None"
          "start_trx_replay simple_env
             (begin_retrying_session\<lparr>m_trx := empty_trx, m_current_query := Some stmt_c\<rparr>)
           = Some (True, b')"
    by (auto simp: trx_finalize_def)
  from start_trx_replay_cap_and_restore [of simple_env interrupted_session] n
    start_trx_replay_first
  have f: "m_orig_trx (snd (the (start_trx_replay simple_env interrupted_session)))
             = m_trx interrupted_session"
    by simp
  from start_trx_replay_cap_and_restore
         [of simple_env "retrying_session\<lparr>m_num_trx_replays := 5\<rparr>"] c
  have k: "start_trx_replay simple_env (retrying_session\<lparr>m_num_trx_replays := 5\<rparr>)
             = Some (False, retrying_session\<lparr>m_num_trx_replays := 5\<rparr>)"
    by blast
  from start_trx_replay_cap_and_restore [of simple_env "replay_finished [1, 2, 3]"] p
  have z: "m_num_trx_replays (trx_replay_next_stmt simple_env (replay_finished [1, 2, 3])) = 0"
    by blast
  show ?thesis using r h f k z s' b' a g n by simp
qed

text \<open>
  The count is not the number of replays attempted for the transaction. With at most one
  attempt configured, the \<open>BEGIN\<close> of a transaction is interrupted and replayed; the
  replay runs to its end, which sets the count back to zero, and the transaction goes on.
  When the master is lost again in the same transaction, a second replay is started.
\<close>

lemma capped_replay_started_eq:
  "capped_replay_started =
     capped_begin_interrupted\<lparr>m_num_trx_replays := 1, m_orig_stmt := Some stmt_begin,
                  m_current_query := None,
                  m_is_replay_active := True,
                  m_replayed_trx := empty_trx\<lparr>trx_checksum := \<lparr>sha_ctx = [], sha_sum = []\<rparr>\<rparr>,
                  m_retry_duration := 1,
                  rws_events := [Retry_query (stmt_begin\<lparr>gw_replayed := True\<rparr>) 1]\<rparr>"
  by (simp add: capped_replay_started_def capped_begin_interrupted_def begin_interrupted_def
      start_trx_replay_def idle_session_def simple_env_def Let_def trx_have_stmts_def
      empty_trx_def trx_finalize_def checksum_finalize_def trx_close_def checksum_reset_def
      retry_query_def)

lemma capped_replay_routed_eq:
  "capped_replay_routed =
     capped_replay_started\<lparr>m_expected_responses := 1,
                          m_current_query := Some (stmt_begin\<lparr>gw_replayed := True\<rparr>),
                          dispatched := [stmt_begin\<lparr>gw_replayed := True\<rparr>]\<rparr>"
  by (simp add: capped_replay_routed_def capped_replay_started_eq capped_begin_interrupted_def
      begin_interrupted_def routeQuery_def can_route_queries_def idle_session_def
      simple_env_def Let_def)

lemma capped_replay_done_eq:
  "capped_replay_done =
      capped_replay_routed\<lparr>m_expected_responses := 0, m_current_query := None,
                           m_is_replay_active := False, m_num_trx_replays := 0,
                           m_trx := \<lparr>trx_checksum = \<lparr>sha_ctx = short_ok_packet,
                                                     sha_sum = replicate 20 0\<rparr>,
                                    trx_log = [stmt_begin\<lparr>gw_replayed := True\<rparr>],
                                    trx_size = 10\<rparr>,
                           backends := (\<lambda>i. idle_backend)
                              (0 := idle_backend\<lparr>b_is_waiting_result := False\<rparr>)\<rparr>"
  by (simp add: capped_replay_done_def capped_replay_routed_eq capped_replay_started_eq
      capped_begin_interrupted_def begin_interrupted_def
      clientReply_def handle_causal_read_reply_def ok_reply_def is_wsrep_error_def
      manage_transactions_def clientReply_complete_def clientReply_processed_def
      clientReply_route_stored_def trx_replay_next_stmt_def backend_upd_def
      idle_session_def idle_backend_def simple_env_def plain_buffer_def stmt_begin_def
      buffer_length_def trx_add_result_def trx_add_stmt_def checksum_update_def
      empty_trx_def trx_empty_def Let_def)

theorem replay_count_reset_counterexample:
  "trx_max_attempts (m_config capped_begin_interrupted) = 1
   \<and> fst (the (start_trx_replay simple_env capped_begin_interrupted))
   \<and> m_num_trx_replays capped_replay_started = 1
   \<and> session_trx_is_active capped_replay_done
   \<and> m_num_trx_replays capped_replay_done = 0
   \<and> fst (the (start_trx_replay simple_env capped_replay_done))
   \<and> rws_events (snd (the (start_trx_replay simple_env capped_replay_done)))
       = [Retry_query (stmt_begin\<lparr>gw_replayed := True\<rparr>) 1,
          Retry_query (stmt_begin\<lparr>gw_replayed := True\<rparr>) 1]"
  by (simp add: capped_replay_done_eq capped_replay_routed_eq capped_replay_started_eq
      capped_begin_interrupted_def begin_interrupted_def start_trx_replay_def
      idle_session_def simple_env_def Let_def trx_have_stmts_def trx_finalize_def
      checksum_finalize_def trx_close_def checksum_reset_def retry_query_def empty_trx_def)

subsection \<open>The size bound of the transaction record\<close>

text \<open>
  \<^verbatim>\<open>manage_transactions\<close> on its own keeps the bound. Where it records a replayable
  transaction (no optimistic rollback in progress, transaction replay configured, the
  transaction replayable and active, the reply not one to a session command), it stores
  the result and the current statement only if the stored size plus the length of the
  current statement is below \<^verbatim>\<open>trx_max_size\<close>; otherwise it closes the record, drops the
  current statement and marks the transaction as not replayable. Once the transaction is
  not replayable, \<^verbatim>\<open>manage_transactions\<close> stores nothing and leaves the mark. A whole
  \<^verbatim>\<open>clientReply\<close> sets the mark back only if transaction replay is configured and the
  transaction of the session is ending (lemma \<open>clientReply_non_replayable\<close> above).
\<close>

lemma manage_transactions_size_bound:
  "(m_otrx_state s \<noteq> OTRX_ROLLBACK \<and> transaction_replay (m_config s) \<and> m_can_replay_trx s
      \<and> session_trx_is_active s \<and> \<not> b_has_session_commands (backends s backend)
     \<longrightarrow> (if trx_size (m_trx s) + buffer_length (m_current_query s) < trx_max_size (m_config s)
          then m_can_replay_trx (manage_transactions s backend writebuf)
               \<and> m_trx (manage_transactions s backend writebuf)
                   = (case m_current_query s of
                        Some q \<Rightarrow> trx_add_stmt q (trx_add_result writebuf (m_trx s))
                      | None \<Rightarrow> trx_add_result writebuf (m_trx s))
          else \<not> m_can_replay_trx (manage_transactions s backend writebuf)
               \<and> m_trx (manage_transactions s backend writebuf) = trx_close (m_trx s)
               \<and> m_current_query (manage_transactions s backend writebuf) = None))
   \<and> (\<not> m_can_replay_trx s
     \<longrightarrow> \<not> m_can_replay_trx (manage_transactions s backend writebuf)
         \<and> m_trx (manage_transactions s backend writebuf) = m_trx s)"
  by (simp add: manage_transactions_def terminate_def Let_def trx_close_def split: option.split)

lemma pipelined_commit_read_eq:
  "pipelined_commit_read =
     nearly_full_session\<lparr>session_trx_is_ending := True, m_query_queue := [Some stmt_commit]\<rparr>"
  by (simp add: pipelined_commit_read_def route_tracked_statement_def
      track_transaction_state_def commit_type_def routeQuery_def can_route_queries_def
      nearly_full_session_def idle_session_def Let_def stmt_commit_def plain_buffer_def)

lemma pipelined_commit_reply_eq:
  "pipelined_commit_reply =
     (Some (plain_buffer short_ok_packet),
      pipelined_commit_read\<lparr>m_trx := empty_trx, m_can_replay_trx := True,
                            m_query_queue := [], m_expected_responses := 1,
                            m_current_query := Some stmt_commit,
                            dispatched := [stmt_commit],
                            backends := (\<lambda>i. idle_backend)
                               (0 := idle_backend\<lparr>b_is_waiting_result := False\<rparr>)\<rparr>)"
  by (simp add: pipelined_commit_reply_def pipelined_commit_read_eq
      clientReply_def handle_causal_read_reply_def ok_reply_def is_wsrep_error_def
      manage_transactions_def clientReply_complete_def clientReply_processed_def
      clientReply_route_stored_def route_stored_query_def routeQuery_def
      can_route_queries_def backend_upd_def nearly_full_session_def
      idle_session_def idle_backend_def simple_env_def plain_buffer_def stmt_b_def
      stmt_commit_def buffer_length_def trx_close_def checksum_reset_def empty_trx_def Let_def)

text \<open>
  Claim C5 at a session whose client sends \<open>COMMIT\<close> before the reply to the statement in
  execution has arrived. The transaction record holds 1020 of at most 1024 bytes and a
  statement of six bytes is being executed. The protocol reads \<open>COMMIT\<close> and marks the
  transaction as ending; the router queues the statement, since a reply is outstanding.
  When the reply arrives, \<^verbatim>\<open>manage_transactions\<close> closes the record and marks the
  transaction as not replayable, as the claim says. The same call of \<^verbatim>\<open>clientReply\<close>,
  however, finds the transaction ending and marks it replayable again, and then sends the
  queued \<open>COMMIT\<close> to the backend: the transaction is still open and active. From here on
  its statements are stored again: the next reply puts \<open>COMMIT\<close> and its result into
  the record, and a failure of the master starts a replay that consists of \<open>COMMIT\<close>
  alone.
\<close>

theorem pipelined_commit_makes_replayable_again:
  "m_can_replay_trx pipelined_commit_read
   \<and> trx_size (m_trx pipelined_commit_read) + buffer_length (m_current_query pipelined_commit_read)
       = 1026
   \<and> trx_max_size (m_config pipelined_commit_read) = 1024
   \<and> \<not> m_can_replay_trx
         (manage_transactions pipelined_commit_read 0 (plain_buffer short_ok_packet))
   \<and> m_can_replay_trx (snd pipelined_commit_reply)
   \<and> session_trx_is_active (snd pipelined_commit_reply)
   \<and> dispatched (snd pipelined_commit_reply) = [stmt_commit]
   \<and> m_expected_responses (snd pipelined_commit_reply) = 1
   \<and> trx_log (m_trx (manage_transactions (snd pipelined_commit_reply) 0
                        (plain_buffer short_ok_packet))) = [stmt_commit]
   \<and> sha_ctx (trx_checksum (m_trx (manage_transactions (snd pipelined_commit_reply) 0
                        (plain_buffer short_ok_packet)))) = short_ok_packet
   \<and> map_option (\<lambda>r. (fst r, rws_events (snd r))) pipelined_commit_replay
       = Some (True, [Retry_query (stmt_commit\<lparr>gw_replayed := True\<rparr>) 1])"
  by (simp add: pipelined_commit_replay_def pipelined_commit_reply_eq pipelined_commit_read_eq
      manage_transactions_def
      start_trx_replay_def retry_query_def nearly_full_session_def idle_session_def
      idle_backend_def simple_env_def plain_buffer_def stmt_b_def stmt_commit_def
      buffer_length_def trx_close_def checksum_reset_def empty_trx_def trx_add_result_def
      trx_add_stmt_def checksum_update_def trx_have_stmts_def trx_finalize_def
      checksum_finalize_def Let_def)

subsection \<open>Queueing of client statements\<close>





subsection \<open>Parsing a KILL statement\<close>




























































end
